theory Spec2Isabelle
  imports Complex_Main
begin

section \<open>Values exchanged with the client\<close>

text \<open>
  The service of \<^verbatim>\<open>backend/app.py\<close> reads JSON request bodies and answers with
  \<^verbatim>\<open>jsonify(...)\<close>. A Python float is a finite number, an infinity or a NaN; finite
  floats are idealised as reals. \<open>JDate t\<close> stands for the string
  \<^verbatim>\<open>created_at.isoformat()\<close> of the time stamp \<open>t\<close>.
\<close>

datatype pyfloat = Finite real | PosInf | NegInf | NaN

datatype json =
    JNull
  | JBool bool
  | JInt int
  | JFloat pyfloat
  | JStr string
  | JDate nat
  | JArr "json list"
  | JObj "(string \<times> json) list"

text \<open>The exceptions that the handlers catch with \<^verbatim>\<open>except Exception as e\<close>.\<close>

datatype py_error =
    IndexError
  | KeyError string
  | ValueError
  | TypeError
  | AttributeError
  | OverflowError
  | ZeroDivisionError
  | BadRequest
  | ModelError string

text \<open>
  A response body is a JSON document, or the plain text of the root route. The body
  \<^verbatim>\<open>jsonify({"error": str(e)})\<close> built from a caught exception \<open>e\<close> is \<open>ErrorOf e\<close>:
  the message text of an exception is not modelled. A response is the pair of body and
  status code that the Flask view returns.
\<close>

datatype body = Json json | Text string | ErrorOf py_error

type_synonym response = "body \<times> nat"

definition jsonify_error :: "string \<Rightarrow> body" where
  "jsonify_error msg = Json (JObj [(''error'', JStr msg)])"

definition jsonify_message :: "string \<Rightarrow> body" where
  "jsonify_message msg = Json (JObj [(''message'', JStr msg)])"

section \<open>The record store and the token registries\<close>

text \<open>
  Modelled from the spec: \<^verbatim>\<open>models.py\<close> (the declarations of the tables User, Admin and
  Prediction) is not among the sources. The fields are those of section 3 of the
  specification and those \<^verbatim>\<open>app.py\<close> reads and writes. A table is the list of its rows
  in insertion order; a new row gets the largest id in the table plus one; a new user is
  not blocked. A stored password is a salted hash, idealised as the salt together with
  the password it was made from, so that \<open>check_password_hash\<close> succeeds on that
  password only. \<open>input_data\<close> holds \<^verbatim>\<open>json.dumps(data)\<close>, which \<^verbatim>\<open>json.loads\<close> reads
  back: the document itself.
\<close>

datatype pwhash = PwHash string string

fun check_password_hash :: "pwhash \<Rightarrow> string \<Rightarrow> bool" where
  "check_password_hash (PwHash salt pw) password = (pw = password)"

definition generate_password_hash :: "string \<Rightarrow> string \<Rightarrow> pwhash" where
  "generate_password_hash salt password = PwHash salt password"

record user =
  user_id :: nat
  user_email :: string
  user_password :: pwhash
  is_blocked :: bool
  user_created_at :: nat

record admin =
  admin_id :: nat
  admin_email :: string
  admin_password :: pwhash
  admin_role :: string
  admin_created_at :: nat

record prediction =
  pred_id :: nat
  pred_user_id :: nat
  input_data :: json
  price :: real
  favorite :: bool
  pred_created_at :: nat

text \<open>
  \<open>active_tokens\<close> and \<open>admin_tokens\<close> are the two module-level dictionaries of
  \<^verbatim>\<open>app.py\<close>, from token to principal id.
\<close>

record state =
  users :: "user list"
  admins :: "admin list"
  predictions :: "prediction list"
  active_tokens :: "string \<rightharpoonup> nat"
  admin_tokens :: "string \<rightharpoonup> nat"

text \<open>
  What a handler reads of the request: the \<^verbatim>\<open>Authorization\<close> header when present, and
  \<^verbatim>\<open>request.json\<close>, which is \<open>None\<close> here when reading it raises (a body that is not
  JSON). The type of the body is a parameter: \<^verbatim>\<open>/predict\<close> reads any JSON document,
  \<^verbatim>\<open>/register\<close> and the two logins read credentials.
\<close>

record 'b request =
  authorization :: "string option"
  req_json :: "'b option"

type_synonym 'b handler = "'b request \<Rightarrow> state \<Rightarrow> response \<times> state"

section \<open>The access guards\<close>

text \<open>
  \<^verbatim>\<open>auth_header.split(" ")\<close>: the segments between single spaces; a string with \<open>n\<close>
  spaces has \<open>n + 1\<close> segments, empty ones included.
\<close>

fun split_space :: "string \<Rightarrow> string list" where
  "split_space [] = [[]]"
| "split_space (c # cs) =
     (if c = CHR '' '' then [] # split_space cs
      else (case split_space cs of
              [] \<Rightarrow> [[c]]
            | w # ws \<Rightarrow> (c # w) # ws))"

text \<open>\<^verbatim>\<open>xs[i]\<close> for \<open>i \<ge> 0\<close>: \<^verbatim>\<open>IndexError\<close> out of range.\<close>

definition py_index :: "'a list \<Rightarrow> nat \<Rightarrow> py_error + 'a" where
  "py_index xs i = (if i < length xs then Inr (xs ! i) else Inl IndexError)"

text \<open>
  The first lines of both decorators are the same: \<open>token\<close> starts as \<open>None\<close>; with an
  \<^verbatim>\<open>Authorization\<close> header it becomes the second segment of the header, and the decorator
  returns at once when there is none.
\<close>

definition header_token :: "'b request \<Rightarrow> response + string option" where
  "header_token req =
     (case authorization req of
        None \<Rightarrow> Inr None
      | Some auth_header \<Rightarrow>
          (case py_index (split_space auth_header) 1 of
             Inl e \<Rightarrow> Inl (jsonify_error ''Invalid token format'', 401)
           | Inr token \<Rightarrow> Inr (Some token)))"

text \<open>\<^verbatim>\<open>not token\<close>: \<open>None\<close> and the empty string are false.\<close>

fun py_not :: "string option \<Rightarrow> bool" where
  "py_not None = True"
| "py_not (Some t) = (t = [])"

definition token_required :: "(nat \<Rightarrow> 'b handler) \<Rightarrow> 'b handler" where
  "token_required f req s =
     (case header_token req of
        Inl r \<Rightarrow> (r, s)
      | Inr token \<Rightarrow>
          if py_not token then ((jsonify_error ''Token is missing'', 401), s)
          else (case active_tokens s (the token) of
                  None \<Rightarrow> ((jsonify_error ''Invalid or expired token'', 401), s)
                | Some current_user_id \<Rightarrow> f current_user_id req s))"

definition admin_required :: "(nat \<Rightarrow> 'b handler) \<Rightarrow> 'b handler" where
  "admin_required f req s =
     (case header_token req of
        Inl r \<Rightarrow> (r, s)
      | Inr token \<Rightarrow>
          if py_not token then ((jsonify_error ''Token is missing'', 401), s)
          else (case admin_tokens s (the token) of
                  None \<Rightarrow> ((jsonify_error ''Invalid or expired admin token'', 401), s)
                | Some current_admin_id \<Rightarrow> f current_admin_id req s))"

section \<open>Registration, login and logout\<close>

text \<open>
  The body of \<^verbatim>\<open>/register\<close>, \<^verbatim>\<open>/login\<close> and \<^verbatim>\<open>/admin/login\<close>: a JSON object whose
  members \<^verbatim>\<open>email\<close> and \<^verbatim>\<open>password\<close> are strings, or \<open>None\<close> where
  \<^verbatim>\<open>data.get\<close> returns \<^verbatim>\<open>None\<close> (the member is absent or null). Members of another JSON
  type are outside this model.
\<close>

record credentials =
  cred_email :: "string option"
  cred_password :: "string option"

text \<open>Primary keys: the id of a new row, and \<^verbatim>\<open>Model.query.get(id)\<close>.\<close>

definition next_id :: "nat list \<Rightarrow> nat" where
  "next_id ids = Suc (fold max ids 0)"

definition get_user :: "state \<Rightarrow> nat \<Rightarrow> user option" where
  "get_user s i = find (\<lambda>u. user_id u = i) (users s)"

definition get_admin :: "state \<Rightarrow> nat \<Rightarrow> admin option" where
  "get_admin s i = find (\<lambda>a. admin_id a = i) (admins s)"

definition get_prediction :: "state \<Rightarrow> nat \<Rightarrow> prediction option" where
  "get_prediction s i = find (\<lambda>p. pred_id p = i) (predictions s)"

text \<open>
  \<open>register\<close> takes the clock (for \<open>created_at\<close>) and the salt drawn by
  \<^verbatim>\<open>generate_password_hash\<close>; \<open>login\<close> takes the value of
  \<^verbatim>\<open>secrets.token_urlsafe(32)\<close>.
\<close>

definition register :: "nat \<Rightarrow> string \<Rightarrow> credentials handler" where
  "register now salt req s =
     (case req_json req of
        None \<Rightarrow> ((ErrorOf BadRequest, 400), s)
      | Some data \<Rightarrow>
          let email = cred_email data; password = cred_password data in
          if py_not email \<or> py_not password
          then ((jsonify_error ''Email and password required'', 400), s)
          else if find (\<lambda>u. user_email u = the email) (users s) \<noteq> None
          then ((jsonify_error ''Email already registered'', 400), s)
          else
            let hashed_password = generate_password_hash salt (the password);
                new_user = \<lparr>user_id = next_id (map user_id (users s)),
                            user_email = the email,
                            user_password = hashed_password,
                            is_blocked = False,
                            user_created_at = now\<rparr>
            in ((jsonify_message ''User registered successfully'', 200),
                s\<lparr>users := users s @ [new_user]\<rparr>))"

definition login :: "string \<Rightarrow> credentials handler" where
  "login token req s =
     (case req_json req of
        None \<Rightarrow> ((ErrorOf BadRequest, 400), s)
      | Some data \<Rightarrow>
          let email = cred_email data; password = cred_password data in
          if py_not email \<or> py_not password
          then ((jsonify_error ''Email and password required'', 400), s)
          else
            (case find (\<lambda>u. user_email u = the email) (users s) of
               None \<Rightarrow> ((jsonify_error ''Invalid credentials'', 401), s)
             | Some user \<Rightarrow>
                 if \<not> check_password_hash (user_password user) (the password)
                 then ((jsonify_error ''Invalid credentials'', 401), s)
                 else
                   ((Json (JObj [(''token'', JStr token),
                                 (''user'', JObj [(''id'', JInt (int (user_id user))),
                                                  (''email'', JStr (user_email user))])]),
                     200),
                    s\<lparr>active_tokens := (active_tokens s)(token \<mapsto> user_id user)\<rparr>)))"

definition get_current_user :: "nat \<Rightarrow> 'b handler" where
  "get_current_user current_user_id req s =
     (case get_user s current_user_id of
        None \<Rightarrow> ((jsonify_error ''User not found'', 404), s)
      | Some user \<Rightarrow>
          ((Json (JObj [(''id'', JInt (int (user_id user))),
                        (''email'', JStr (user_email user)),
                        (''created_at'', JDate (user_created_at user))]), 200), s))"

text \<open>
  The logout handlers read the token from the header again; \<^verbatim>\<open>del\<close> removes the key
  from the dictionary.
\<close>

definition logout :: "nat \<Rightarrow> 'b handler" where
  "logout current_user_id req s =
     (case (case authorization req of
              None \<Rightarrow> Inl (KeyError ''Authorization'')
            | Some auth_header \<Rightarrow> py_index (split_space auth_header) 1) of
        Inl e \<Rightarrow> ((ErrorOf e, 400), s)
      | Inr token \<Rightarrow>
          ((jsonify_message ''Logged out successfully'', 200),
           (if active_tokens s token \<noteq> None
            then s\<lparr>active_tokens := (active_tokens s)(token := None)\<rparr>
            else s)))"

definition admin_login :: "string \<Rightarrow> credentials handler" where
  "admin_login token req s =
     (case req_json req of
        None \<Rightarrow> ((ErrorOf BadRequest, 400), s)
      | Some data \<Rightarrow>
          let email = cred_email data; password = cred_password data in
          if py_not email \<or> py_not password
          then ((jsonify_error ''Email and password required'', 400), s)
          else
            (case find (\<lambda>a. admin_email a = the email) (admins s) of
               None \<Rightarrow> ((jsonify_error ''Invalid admin credentials'', 401), s)
             | Some admin \<Rightarrow>
                 if \<not> check_password_hash (admin_password admin) (the password)
                 then ((jsonify_error ''Invalid admin credentials'', 401), s)
                 else
                   ((Json (JObj [(''token'', JStr token),
                                 (''admin'', JObj [(''id'', JInt (int (admin_id admin))),
                                                   (''email'', JStr (admin_email admin)),
                                                   (''role'', JStr (admin_role admin))])]),
                     200),
                    s\<lparr>admin_tokens := (admin_tokens s)(token \<mapsto> admin_id admin)\<rparr>)))"

definition get_current_admin :: "nat \<Rightarrow> 'b handler" where
  "get_current_admin current_admin_id req s =
     (case get_admin s current_admin_id of
        None \<Rightarrow> ((jsonify_error ''Admin not found'', 404), s)
      | Some admin \<Rightarrow>
          ((Json (JObj [(''id'', JInt (int (admin_id admin))),
                        (''email'', JStr (admin_email admin)),
                        (''role'', JStr (admin_role admin)),
                        (''created_at'', JDate (admin_created_at admin))]), 200), s))"

definition admin_logout :: "nat \<Rightarrow> 'b handler" where
  "admin_logout current_admin_id req s =
     (case (case authorization req of
              None \<Rightarrow> Inl (KeyError ''Authorization'')
            | Some auth_header \<Rightarrow> py_index (split_space auth_header) 1) of
        Inl e \<Rightarrow> ((ErrorOf e, 400), s)
      | Inr token \<Rightarrow>
          ((jsonify_message ''Admin logged out successfully'', 200),
           (if admin_tokens s token \<noteq> None
            then s\<lparr>admin_tokens := (admin_tokens s)(token := None)\<rparr>
            else s)))"

section \<open>The environment of the prediction endpoint\<close>

text \<open>
  What the process holds besides its own code is a parameter of the model. The artifacts
  loaded at start-up: the fitted encoder of the furnishing status
  (\<^verbatim>\<open>label_encoders["furnishingstatus"].transform([x])[0]\<close>), the regression model
  (\<^verbatim>\<open>np.array(input_data).reshape(1, -1)\<close> followed by
  \<^verbatim>\<open>float(model.predict(arr)[0])\<close>), the name of the model's type and the feature names.
  And the interpreter's reading of a numeric literal out of a string, \<^verbatim>\<open>float(s)\<close> and
  \<^verbatim>\<open>int(s)\<close>, which depends on its Unicode tables and its limits. Each call may raise.
\<close>

datatype pynum = PyFloat pyfloat | PyInt int

record artifacts =
  furnishing_transform :: "json \<Rightarrow> py_error + int"
  model_predict :: "pynum list \<Rightarrow> py_error + real"
  model_type :: string
  feature_names :: "string list"
  float_of_str :: "string \<Rightarrow> py_error + pyfloat"
  int_of_str :: "string \<Rightarrow> py_error + int"

section \<open>The built-in conversions used by the feature translation\<close>

text \<open>
  Sequencing of computations that may raise: the first exception ends the evaluation.
\<close>

definition and_then :: "py_error + 'a \<Rightarrow> ('a \<Rightarrow> py_error + 'b) \<Rightarrow> py_error + 'b" where
  "and_then m f = (case m of Inl e \<Rightarrow> Inl e | Inr x \<Rightarrow> f x)"

text \<open>
  \<^verbatim>\<open>data[key]\<close> on the parsed body: a dictionary raises \<^verbatim>\<open>KeyError\<close> for a missing key,
  every other JSON value raises \<^verbatim>\<open>TypeError\<close> for a string subscript.
\<close>

fun getitem :: "json \<Rightarrow> string \<Rightarrow> py_error + json" where
  "getitem (JObj kvs) k = (case map_of kvs k of None \<Rightarrow> Inl (KeyError k) | Some v \<Rightarrow> Inr v)"
| "getitem _ k = Inl TypeError"

text \<open>
  A string of one to fifteen ASCII digits is read by \<^verbatim>\<open>float\<close> and by \<^verbatim>\<open>int\<close> as the
  decimal number it writes (below \<open>10\<^sup>1\<^sup>5\<close> a float holds it exactly). What the
  interpreter makes of any other string is left to the environment.
\<close>

definition is_digit :: "char \<Rightarrow> bool" where
  "is_digit c = (c \<in> set ''0123456789'')"

definition digit_val :: "char \<Rightarrow> nat" where
  "digit_val c = of_char c - 48"

definition digits_value :: "string \<Rightarrow> nat" where
  "digits_value s = foldl (\<lambda>n c. 10 * n + digit_val c) 0 s"

definition short_digits :: "string \<Rightarrow> bool" where
  "short_digits s = (s \<noteq> [] \<and> length s \<le> 15 \<and> list_all is_digit s)"

text \<open>
  \<^verbatim>\<open>float(x)\<close> on a JSON value. An integer converts when it rounds to a finite float,
  that is when its magnitude is below \<open>2\<^sup>1\<^sup>0\<^sup>2\<^sup>4 - 2\<^sup>9\<^sup>7\<^sup>0\<close>, and raises
  \<^verbatim>\<open>OverflowError\<close> otherwise; \<^verbatim>\<open>None\<close>, a list and a dictionary raise
  \<^verbatim>\<open>TypeError\<close>. \<open>JDate\<close> is a time stamp in ISO format, a string that is no numeric
  literal.
\<close>

fun py_float :: "artifacts \<Rightarrow> json \<Rightarrow> py_error + pyfloat" where
  "py_float art (JStr s) =
     (if short_digits s then Inr (Finite (real (digits_value s))) else float_of_str art s)"
| "py_float art (JInt i) =
     (if \<bar>i\<bar> < 2 ^ 1024 - 2 ^ 970 then Inr (Finite (real_of_int i)) else Inl OverflowError)"
| "py_float art (JFloat f) = Inr f"
| "py_float art (JBool b) = Inr (Finite (if b then 1 else 0))"
| "py_float art (JDate t) = Inl ValueError"
| "py_float art JNull = Inl TypeError"
| "py_float art (JArr xs) = Inl TypeError"
| "py_float art (JObj kvs) = Inl TypeError"

text \<open>
  \<^verbatim>\<open>int(x)\<close> on a JSON value: a float is cut towards zero, an infinity raises
  \<^verbatim>\<open>OverflowError\<close> and a NaN \<^verbatim>\<open>ValueError\<close>.
\<close>

definition truncate :: "real \<Rightarrow> int" where
  "truncate r = (if 0 \<le> r then \<lfloor>r\<rfloor> else \<lceil>r\<rceil>)"

fun py_int :: "artifacts \<Rightarrow> json \<Rightarrow> py_error + int" where
  "py_int art (JStr s) =
     (if short_digits s then Inr (int (digits_value s)) else int_of_str art s)"
| "py_int art (JInt i) = Inr i"
| "py_int art (JFloat (Finite r)) = Inr (truncate r)"
| "py_int art (JFloat PosInf) = Inl OverflowError"
| "py_int art (JFloat NegInf) = Inl OverflowError"
| "py_int art (JFloat NaN) = Inl ValueError"
| "py_int art (JBool b) = Inr (if b then 1 else 0)"
| "py_int art (JDate t) = Inl ValueError"
| "py_int art JNull = Inl TypeError"
| "py_int art (JArr xs) = Inl TypeError"
| "py_int art (JObj kvs) = Inl TypeError"

text \<open>
  \<^verbatim>\<open>round(x, 2)\<close> on a float: the nearest multiple of 0.01, a tie going to the even one.
\<close>

definition round_half_even :: "real \<Rightarrow> int" where
  "round_half_even x =
     (let f = \<lfloor>x\<rfloor>; d = x - of_int f in
      if d < 1 / 2 then f
      else if 1 / 2 < d then f + 1
      else if even f then f else f + 1)"

definition round2 :: "real \<Rightarrow> real" where
  "round2 x = of_int (round_half_even (x * 100)) / 100"

section \<open>Prediction\<close>

text \<open>
  \<^verbatim>\<open>1 if str(x).lower() == "yes" else 0\<close>. \<open>lower\<close> turns the letters A to Z into
  a to z; no other character becomes \<^verbatim>\<open>y\<close>, \<^verbatim>\<open>e\<close> or \<^verbatim>\<open>s\<close> in lower case. The text
  of a number, a truth value, \<^verbatim>\<open>None\<close>, a list or a dictionary is never \<^verbatim>\<open>yes\<close> in any
  case of letters, nor is a time stamp.
\<close>

definition lower_char :: "char \<Rightarrow> char" where
  "lower_char c =
     (let n = (of_char c :: nat) in if 65 \<le> n \<and> n \<le> 90 then char_of (n + 32) else c)"

definition lower :: "string \<Rightarrow> string" where
  "lower s = map lower_char s"

fun yn :: "json \<Rightarrow> int" where
  "yn (JStr x) = (if lower x = ''yes'' then 1 else 0)"
| "yn _ = 0"

text \<open>
  The list \<open>input_data\<close> of \<open>predict\<close>, built left to right; the first element that
  raises ends the construction.
\<close>

definition translate :: "artifacts \<Rightarrow> json \<Rightarrow> py_error + pynum list" where
  "translate art data =
     and_then (and_then (getitem data ''area'') (py_float art)) (\<lambda>area.
     and_then (and_then (getitem data ''bedrooms'') (py_int art)) (\<lambda>bedrooms.
     and_then (and_then (getitem data ''bathrooms'') (py_int art)) (\<lambda>bathrooms.
     and_then (and_then (getitem data ''stories'') (py_int art)) (\<lambda>stories.
     and_then (getitem data ''mainroad'') (\<lambda>mainroad.
     and_then (getitem data ''guestroom'') (\<lambda>guestroom.
     and_then (getitem data ''basement'') (\<lambda>basement.
     and_then (getitem data ''hotwaterheating'') (\<lambda>hotwaterheating.
     and_then (getitem data ''airconditioning'') (\<lambda>airconditioning.
     and_then (and_then (getitem data ''parking'') (py_int art)) (\<lambda>parking.
     and_then (getitem data ''prefarea'') (\<lambda>prefarea.
     and_then (and_then (getitem data ''furnishingstatus'') (furnishing_transform art))
       (\<lambda>furnishingstatus.
     Inr [PyFloat area, PyInt bedrooms, PyInt bathrooms, PyInt stories,
          PyInt (yn mainroad), PyInt (yn guestroom), PyInt (yn basement),
          PyInt (yn hotwaterheating), PyInt (yn airconditioning),
          PyInt parking,
          PyInt (yn prefarea),
          PyInt furnishingstatus]))))))))))))"

text \<open>
  \<open>predict\<close> takes the artifacts and the clock. Everything up to the rounded price is
  inside the \<^verbatim>\<open>try\<close>; the record is added and committed after it.
\<close>

definition predict :: "artifacts \<Rightarrow> nat \<Rightarrow> nat \<Rightarrow> json handler" where
  "predict art now current_user_id req s =
     (case and_then (case req_json req of None \<Rightarrow> Inl BadRequest | Some data \<Rightarrow> Inr data)
             (\<lambda>data. and_then (translate art data)
             (\<lambda>vector. and_then (model_predict art vector)
             (\<lambda>raw_price. Inr (data, round2 raw_price)))) of
        Inl e \<Rightarrow> ((ErrorOf e, 400), s)
      | Inr (data, rounded_price) \<Rightarrow>
          let prediction = \<lparr>pred_id = next_id (map pred_id (predictions s)),
                            pred_user_id = current_user_id,
                            input_data = data,
                            price = rounded_price,
                            favorite = False,
                            pred_created_at = now\<rparr>
          in ((Json (JObj [(''predicted_price'', JFloat (Finite rounded_price)),
                           (''prediction_id'', JInt (int (pred_id prediction)))]), 200),
              s\<lparr>predictions := predictions s @ [prediction]\<rparr>))"

section \<open>History\<close>

text \<open>
  \<^verbatim>\<open>order_by(created_at.desc())\<close>: newest first; among equal time stamps the later row
  comes first here (SQL leaves that order open).
\<close>

definition newest_first :: "('r \<Rightarrow> nat) \<Rightarrow> 'r list \<Rightarrow> 'r list" where
  "newest_first created_at rows = rev (sort_key created_at rows)"

definition get_history :: "nat \<Rightarrow> 'b handler" where
  "get_history current_user_id req s =
     (let preds = newest_first pred_created_at
                    (filter (\<lambda>p. pred_user_id p = current_user_id) (predictions s));
          history = map (\<lambda>pred. JObj [(''id'', JInt (int (pred_id pred))),
                                       (''input'', input_data pred),
                                       (''price'', JFloat (Finite (price pred))),
                                       (''favorite'', JBool (favorite pred)),
                                       (''created_at'', JDate (pred_created_at pred))]) preds
      in ((Json (JArr history), 200), s))"

text \<open>
  \<^verbatim>\<open>db.session.delete(row)\<close> and an attribute update followed by a commit act on the row
  with the primary key of the loaded object.
\<close>

definition delete_history :: "nat \<Rightarrow> nat \<Rightarrow> 'b handler" where
  "delete_history current_user_id i req s =
     (case find (\<lambda>p. pred_id p = i \<and> pred_user_id p = current_user_id) (predictions s) of
        None \<Rightarrow> ((jsonify_error ''Prediction not found'', 404), s)
      | Some prediction \<Rightarrow>
          ((jsonify_message ''deleted'', 200),
           s\<lparr>predictions := filter (\<lambda>p. pred_id p \<noteq> pred_id prediction) (predictions s)\<rparr>))"

definition toggle_favorite :: "nat \<Rightarrow> nat \<Rightarrow> 'b handler" where
  "toggle_favorite current_user_id i req s =
     (case find (\<lambda>p. pred_id p = i \<and> pred_user_id p = current_user_id) (predictions s) of
        None \<Rightarrow> ((jsonify_error ''Prediction not found'', 404), s)
      | Some prediction \<Rightarrow>
          let new_favorite = (\<not> favorite prediction) in
          ((Json (JObj [(''message'', JStr ''favorite toggled''),
                        (''favorite'', JBool new_favorite)]), 200),
           s\<lparr>predictions :=
                map (\<lambda>p. if pred_id p = pred_id prediction then p\<lparr>favorite := new_favorite\<rparr> else p)
                  (predictions s)\<rparr>))"

section \<open>Administration\<close>

definition get_all_users :: "nat \<Rightarrow> 'b handler" where
  "get_all_users current_admin_id req s =
     (let user_list =
            map (\<lambda>user.
                   let prediction_count =
                         length (filter (\<lambda>p. pred_user_id p = user_id user) (predictions s))
                   in JObj [(''id'', JInt (int (user_id user))),
                            (''email'', JStr (user_email user)),
                            (''is_blocked'', JBool (is_blocked user)),
                            (''created_at'', JDate (user_created_at user)),
                            (''prediction_count'', JInt (int prediction_count))])
              (users s)
      in ((Json (JArr user_list), 200), s))"

definition delete_user :: "nat \<Rightarrow> nat \<Rightarrow> 'b handler" where
  "delete_user current_admin_id uid req s =
     (case get_user s uid of
        None \<Rightarrow> ((jsonify_error ''User not found'', 404), s)
      | Some user \<Rightarrow>
          ((jsonify_message ''User deleted successfully'', 200),
           s\<lparr>users := filter (\<lambda>u. user_id u \<noteq> user_id user) (users s)\<rparr>))"

definition toggle_block_user :: "nat \<Rightarrow> nat \<Rightarrow> 'b handler" where
  "toggle_block_user current_admin_id uid req s =
     (case get_user s uid of
        None \<Rightarrow> ((jsonify_error ''User not found'', 404), s)
      | Some user \<Rightarrow>
          let new_blocked = (\<not> is_blocked user) in
          ((Json (JObj [(''message'', JStr ''User block status updated''),
                        (''is_blocked'', JBool new_blocked)]), 200),
           s\<lparr>users :=
                map (\<lambda>u. if user_id u = user_id user then u\<lparr>is_blocked := new_blocked\<rparr> else u)
                  (users s)\<rparr>))"

definition get_all_predictions :: "nat \<Rightarrow> 'b handler" where
  "get_all_predictions current_admin_id req s =
     (let preds = newest_first pred_created_at (predictions s);
          prediction_list =
            map (\<lambda>pred.
                   let user = get_user s (pred_user_id pred)
                   in JObj [(''id'', JInt (int (pred_id pred))),
                            (''user_email'',
                               JStr (case user of Some u \<Rightarrow> user_email u | None \<Rightarrow> ''Unknown'')),
                            (''user_id'', JInt (int (pred_user_id pred))),
                            (''input'', input_data pred),
                            (''price'', JFloat (Finite (price pred))),
                            (''favorite'', JBool (favorite pred)),
                            (''created_at'', JDate (pred_created_at pred))])
              preds
      in ((Json (JArr prediction_list), 200), s))"

definition delete_prediction_admin :: "nat \<Rightarrow> nat \<Rightarrow> 'b handler" where
  "delete_prediction_admin current_admin_id prediction_id req s =
     (case get_prediction s prediction_id of
        None \<Rightarrow> ((jsonify_error ''Prediction not found'', 404), s)
      | Some prediction \<Rightarrow>
          ((jsonify_message ''Prediction deleted successfully'', 200),
           s\<lparr>predictions := filter (\<lambda>p. pred_id p \<noteq> pred_id prediction) (predictions s)\<rparr>))"

text \<open>
  The arithmetic of the dashboard. \<^verbatim>\<open>sum(xs) / len(xs)\<close> raises
  \<^verbatim>\<open>ZeroDivisionError\<close> for an empty list, \<^verbatim>\<open>max\<close> and \<^verbatim>\<open>min\<close> raise
  \<^verbatim>\<open>ValueError\<close>. The literal \<^verbatim>\<open>0\<close> of the other branch is an integer, which
  \<^verbatim>\<open>round\<close> leaves an integer.
\<close>

definition py_truediv :: "real \<Rightarrow> nat \<Rightarrow> py_error + real" where
  "py_truediv a n = (if n = 0 then Inl ZeroDivisionError else Inr (a / real n))"

fun py_max :: "real list \<Rightarrow> py_error + real" where
  "py_max [] = Inl ValueError"
| "py_max (x # xs) = Inr (fold max xs x)"

fun py_min :: "real list \<Rightarrow> py_error + real" where
  "py_min [] = Inl ValueError"
| "py_min (x # xs) = Inr (fold min xs x)"

fun py_round2 :: "pynum \<Rightarrow> pynum" where
  "py_round2 (PyInt i) = PyInt i"
| "py_round2 (PyFloat (Finite r)) = PyFloat (Finite (round2 r))"
| "py_round2 (PyFloat f) = PyFloat f"

fun json_of_num :: "pynum \<Rightarrow> json" where
  "json_of_num (PyInt i) = JInt i"
| "json_of_num (PyFloat f) = JFloat f"

definition float_result :: "py_error + real \<Rightarrow> py_error + pynum" where
  "float_result m = and_then m (\<lambda>r. Inr (PyFloat (Finite r)))"

definition get_statistics :: "nat \<Rightarrow> 'b handler" where
  "get_statistics current_admin_id req s =
     (let total_users = length (users s);
          total_predictions = length (predictions s);
          preds = predictions s
      in case
           and_then (if preds \<noteq> []
                     then float_result (py_truediv (sum_list (map price preds)) (length preds))
                     else Inr (PyInt 0)) (\<lambda>avg_price.
           let recent_users = take 5 (newest_first user_created_at (users s));
               recent_predictions = take 5 (newest_first pred_created_at (predictions s))
           in
           and_then (if preds \<noteq> [] then float_result (py_max (map price preds))
                     else Inr (PyInt 0)) (\<lambda>max_price.
           and_then (if preds \<noteq> [] then float_result (py_min (map price preds))
                     else Inr (PyInt 0)) (\<lambda>min_price.
           Inr (JObj [(''total_users'', JInt (int total_users)),
                      (''total_predictions'', JInt (int total_predictions)),
                      (''avg_price'', json_of_num (py_round2 avg_price)),
                      (''max_price'', json_of_num (py_round2 max_price)),
                      (''min_price'', json_of_num (py_round2 min_price)),
                      (''recent_users_count'', JInt (int (length recent_users))),
                      (''recent_predictions_count'', JInt (int (length recent_predictions)))]))))
         of
           Inl e \<Rightarrow> ((ErrorOf e, 400), s)
         | Inr stats \<Rightarrow> ((Json stats, 200), s))"

definition get_model_info :: "artifacts \<Rightarrow> nat \<Rightarrow> 'b handler" where
  "get_model_info art current_admin_id req s =
     ((Json (JObj [(''model_type'', JStr (model_type art)),
                   (''features_count'', JInt (int (length (feature_names art)))),
                   (''feature_names'', JArr (map JStr (feature_names art))),
                   (''last_trained'', JStr ''2024-01-15''),
                   (''accuracy'', JStr ''85.3%''),
                   (''total_predictions'', JInt (int (length (predictions s))))]), 200), s)"

definition home :: "state \<Rightarrow> response \<times> state" where
  "home s = ((Text ''Flat Price Prediction API Running'', 200), s)"

section \<open>The routes\<close>

text \<open>
  One request to the service: the route, the path parameter, the request, and what the
  view draws from outside (the clock, the salt, the random token). \<open>serve\<close> is the
  routing table with the decorators applied as in the source.
\<close>

datatype call =
    Home
  | Register nat string "credentials request"
  | Login string "credentials request"
  | Me "json request"
  | Logout "json request"
  | AdminLogin string "credentials request"
  | AdminMe "json request"
  | AdminLogout "json request"
  | Predict nat "json request"
  | History "json request"
  | DeleteHistory nat "json request"
  | ToggleFavorite nat "json request"
  | GetAllUsers "json request"
  | DeleteUser nat "json request"
  | ToggleBlockUser nat "json request"
  | GetAllPredictions "json request"
  | DeletePredictionAdmin nat "json request"
  | GetStatistics "json request"
  | GetModelInfo "json request"

fun serve :: "artifacts \<Rightarrow> call \<Rightarrow> state \<Rightarrow> response \<times> state" where
  "serve art Home s = home s"
| "serve art (Register now salt req) s = register now salt req s"
| "serve art (Login token req) s = login token req s"
| "serve art (Me req) s = token_required get_current_user req s"
| "serve art (Logout req) s = token_required logout req s"
| "serve art (AdminLogin token req) s = admin_login token req s"
| "serve art (AdminMe req) s = admin_required get_current_admin req s"
| "serve art (AdminLogout req) s = admin_required admin_logout req s"
| "serve art (Predict now req) s = token_required (predict art now) req s"
| "serve art (History req) s = token_required get_history req s"
| "serve art (DeleteHistory i req) s = token_required (\<lambda>uid. delete_history uid i) req s"
| "serve art (ToggleFavorite i req) s = token_required (\<lambda>uid. toggle_favorite uid i) req s"
| "serve art (GetAllUsers req) s = admin_required get_all_users req s"
| "serve art (DeleteUser uid req) s = admin_required (\<lambda>aid. delete_user aid uid) req s"
| "serve art (ToggleBlockUser uid req) s =
     admin_required (\<lambda>aid. toggle_block_user aid uid) req s"
| "serve art (GetAllPredictions req) s = admin_required get_all_predictions req s"
| "serve art (DeletePredictionAdmin i req) s =
     admin_required (\<lambda>aid. delete_prediction_admin aid i) req s"
| "serve art (GetStatistics req) s = admin_required get_statistics req s"
| "serve art (GetModelInfo req) s = admin_required (get_model_info art) req s"


fun responses :: "artifacts \<Rightarrow> call list \<Rightarrow> state \<Rightarrow> response list" where
  "responses art [] s = []"
| "responses art (c # cs) s = fst (serve art c s) # responses art cs (snd (serve art c s))"

text \<open>
  A request with a bearer token and no body, and one with a body; an encoder fitted on
  the three furnishing classes of the housing data (\<^verbatim>\<open>LabelEncoder\<close> numbers the sorted
  classes from 0 and raises \<^verbatim>\<open>ValueError\<close> for an unseen label) with a model that
  returns one fixed price and an interpreter stub that rejects every string other than a
  short string of digits, to run the service on concrete requests.
\<close>

definition bearer :: "string \<Rightarrow> 'b request" where
  "bearer token = \<lparr>authorization = Some (''Bearer '' @ token), req_json = None\<rparr>"

definition bearer_json :: "string \<Rightarrow> 'b \<Rightarrow> 'b request" where
  "bearer_json token data = \<lparr>authorization = Some (''Bearer '' @ token), req_json = Some data\<rparr>"

definition anonymous :: "'b \<Rightarrow> 'b request" where
  "anonymous data = \<lparr>authorization = None, req_json = Some data\<rparr>"

fun index_of :: "'a list \<Rightarrow> 'a \<Rightarrow> nat option" where
  "index_of [] x = None"
| "index_of (y # ys) x = (if x = y then Some 0 else map_option Suc (index_of ys x))"

fun label_encoder :: "string list \<Rightarrow> json \<Rightarrow> py_error + int" where
  "label_encoder classes (JStr x) =
     (case index_of classes x of None \<Rightarrow> Inl ValueError | Some i \<Rightarrow> Inr (int i))"
| "label_encoder classes _ = Inl ValueError"

definition example_artifacts :: artifacts where
  "example_artifacts =
     \<lparr>furnishing_transform = label_encoder [''furnished'', ''semi-furnished'', ''unfurnished''],
      model_predict = (\<lambda>v. if length v = 12 then Inr 4766660.5 else Inl (ModelError ''shape'')),
      model_type = ''Pipeline'',
      feature_names = [''area'', ''bedrooms'', ''bathrooms'', ''stories'', ''mainroad'',
                       ''guestroom'', ''basement'', ''hotwaterheating'', ''airconditioning'',
                       ''parking'', ''prefarea'', ''furnishingstatus''],
      float_of_str = (\<lambda>s. Inl ValueError),
      int_of_str = (\<lambda>s. Inl ValueError)\<rparr>"

definition example_payload :: json where
  "example_payload =
     JObj [(''area'', JStr ''7500''), (''bedrooms'', JInt 4), (''bathrooms'', JInt 2),
           (''stories'', JInt 2), (''mainroad'', JStr ''yes''), (''guestroom'', JStr ''no''),
           (''basement'', JStr ''yes''), (''hotwaterheating'', JStr ''no''),
           (''airconditioning'', JStr ''yes''), (''parking'', JInt 2),
           (''prefarea'', JStr ''yes''), (''furnishingstatus'', JStr ''semi-furnished'')]"

definition empty_state :: state where
  "empty_state =
     \<lparr>users = [], admins = [], predictions = [],
      active_tokens = Map.empty, admin_tokens = Map.empty\<rparr>"

text \<open>
  A store with two users, one administrator and one prediction of each user, and a
  token of each principal.
\<close>

definition alice :: user where
  "alice = \<lparr>user_id = 1, user_email = ''alice@example.com'',
            user_password = PwHash ''salt1'' ''wonderland'', is_blocked = False,
            user_created_at = 10\<rparr>"

definition bob :: user where
  "bob = \<lparr>user_id = 2, user_email = ''bob@example.com'',
          user_password = PwHash ''salt2'' ''builder'', is_blocked = False,
          user_created_at = 20\<rparr>"

definition root_admin :: admin where
  "root_admin = \<lparr>admin_id = 1, admin_email = ''admin@flatprice.com'',
                 admin_password = PwHash ''salt0'' ''admin123'', admin_role = ''admin'',
                 admin_created_at = 1\<rparr>"

definition bobs_prediction :: prediction where
  "bobs_prediction = \<lparr>pred_id = 1, pred_user_id = 2, input_data = example_payload,
                      price = 4766660.5, favorite = False, pred_created_at = 30\<rparr>"

definition alices_prediction :: prediction where
  "alices_prediction = \<lparr>pred_id = 2, pred_user_id = 1, input_data = example_payload,
                        price = 5100000, favorite = True, pred_created_at = 40\<rparr>"

definition example_state :: state where
  "example_state =
     \<lparr>users = [alice, bob], admins = [root_admin],
      predictions = [bobs_prediction, alices_prediction],
      active_tokens = [''tokA'' \<mapsto> 1, ''tokB'' \<mapsto> 2],
      admin_tokens = [''adm'' \<mapsto> 1]\<rparr>"






text \<open>
  What the second user does in one session: log in, read the profile, predict, read the
  history, log out.
\<close>

definition bob_credentials :: credentials where
  "bob_credentials = \<lparr>cred_email = Some ''bob@example.com'', cred_password = Some ''builder''\<rparr>"

definition bob_session :: "call list" where
  "bob_session =
     [Login ''tokB2'' (anonymous bob_credentials),
      Me (bearer ''tokB2''),
      Predict 60 (bearer_json ''tokB2'' example_payload),
      History (bearer ''tokB2''),
      Logout (bearer ''tokB2'')]"

section \<open>Notions used in the statements\<close>




text \<open>
  Two states that differ at most in the block flags of their users; two outcomes of a
  request that agree (the same response, states that differ at most in block flags); and
  the two routes whose response shows a block flag.
\<close>

definition unblock :: "user \<Rightarrow> user" where
  "unblock u = u\<lparr>is_blocked := False\<rparr>"

definition same_but_blocked :: "state \<Rightarrow> state \<Rightarrow> bool" where
  "same_but_blocked s s' \<longleftrightarrow>
     map unblock (users s) = map unblock (users s') \<and>
     admins s = admins s' \<and> predictions s = predictions s' \<and>
     active_tokens s = active_tokens s' \<and> admin_tokens s = admin_tokens s'"

definition agree :: "response \<times> state \<Rightarrow> response \<times> state \<Rightarrow> bool" where
  "agree a b \<longleftrightarrow> fst a = fst b \<and> same_but_blocked (snd a) (snd b)"

fun shows_block_flag :: "call \<Rightarrow> bool" where
  "shows_block_flag (GetAllUsers req) = True"
| "shows_block_flag (ToggleBlockUser uid req) = True"
| "shows_block_flag c = False"

section \<open>Properties of the guards\<close>

lemma split_space_no_space: "CHR '' '' \<notin> set h \<Longrightarrow> split_space h = [h]"
  by (induction h) auto

lemma split_space_length:
  "length (split_space h) = Suc (length (filter (\<lambda>c. c = CHR '' '') h))"
  by (induction h) (auto split: list.splits)

lemma token_required_pass:
  "authorization req = Some h \<Longrightarrow> py_index (split_space h) 1 = Inr t \<Longrightarrow> t \<noteq> [] \<Longrightarrow>
   active_tokens s t = Some uid \<Longrightarrow> token_required f req s = f uid req s"
  by (simp add: token_required_def header_token_def)

lemma admin_required_pass:
  "authorization req = Some h \<Longrightarrow> py_index (split_space h) 1 = Inr t \<Longrightarrow> t \<noteq> [] \<Longrightarrow>
   admin_tokens s t = Some aid \<Longrightarrow> admin_required f req s = f aid req s"
  by (simp add: admin_required_def header_token_def)

lemma bearer_index:
  "CHR '' '' \<notin> set t \<Longrightarrow> py_index (split_space (''Bearer '' @ t)) 1 = Inr t"
  by (simp add: py_index_def split_space_no_space)

text \<open>
  Claim C10. When the \<^verbatim>\<open>Authorization\<close> header splits on single spaces into a second
  segment that is the empty string (as \<^verbatim>\<open>"Bearer "\<close> and \<^verbatim>\<open>"Bearer  tok"\<close> do), both
  guards answer 401 with \<^verbatim>\<open>Token is missing\<close>, not with the error for a malformed
  header, and the handler does not run.
\<close>

theorem empty_token_is_missing:
  assumes "authorization req = Some h" and "py_index (split_space h) 1 = Inr []"
  shows "token_required f req s = ((jsonify_error ''Token is missing'', 401), s) \<and>
         admin_required g req s = ((jsonify_error ''Token is missing'', 401), s)"
  using assms by (simp add: token_required_def admin_required_def header_token_def)

theorem empty_token_is_missing_witness:
  "py_index (split_space ''Bearer '') 1 = Inr [] \<and>
   py_index (split_space ''Bearer  tok'') 1 = Inr [] \<and>
   token_required get_current_user
     \<lparr>authorization = Some ''Bearer '', req_json = None :: json option\<rparr> empty_state =
     ((jsonify_error ''Token is missing'', 401), empty_state) \<and>
   admin_required get_statistics
     \<lparr>authorization = Some ''Bearer  tok'', req_json = None :: json option\<rparr> empty_state =
     ((jsonify_error ''Token is missing'', 401), empty_state)"
proof -
  have a: "py_index (split_space ''Bearer '') 1 = Inr []" by (simp add: py_index_def)
  have b: "py_index (split_space ''Bearer  tok'') 1 = Inr []" by (simp add: py_index_def)
  show ?thesis
    using a b
      empty_token_is_missing [of "\<lparr>authorization = Some ''Bearer '', req_json = None :: json option\<rparr>"
        "''Bearer ''" get_current_user empty_state get_statistics]
      empty_token_is_missing [of "\<lparr>authorization = Some ''Bearer  tok'', req_json = None :: json option\<rparr>"
        "''Bearer  tok''" get_current_user empty_state get_statistics]
    by simp
qed

lemma no_second_segment: "py_index (split_space h) 1 = Inl IndexError \<longleftrightarrow> CHR '' '' \<notin> set h"
  by (auto simp: py_index_def split_space_length filter_empty_conv)

lemma tokA_index: "py_index (split_space ''Bearer tokA'') 1 = Inr ''tokA''"
  by (simp add: py_index_def)

lemma adm_index: "py_index (split_space ''Bearer adm'') 1 = Inr ''adm''"
  by (simp add: py_index_def)

text \<open>
  Claim C2, as amended. Both guards reject before the handler runs and leave the state
  as it was, always with status 401: a request with no \<^verbatim>\<open>Authorization\<close> header gets
  \<^verbatim>\<open>Token is missing\<close>; a header with no second segment (no space in it) gets
  \<^verbatim>\<open>Invalid token format\<close>; a header whose second segment is a non-empty token that
  is not in the guard's own registry gets \<^verbatim>\<open>Invalid or expired token\<close> (the admin
  guard: \<^verbatim>\<open>Invalid or expired admin token\<close>). The handlers \<open>f\<close> and \<open>g\<close> are
  arbitrary.
\<close>

theorem guard_rejections:
  "(authorization req = None \<longrightarrow>
      token_required f req s = ((jsonify_error ''Token is missing'', 401), s) \<and>
      admin_required g req s = ((jsonify_error ''Token is missing'', 401), s)) \<and>
   (authorization req = Some h \<and> CHR '' '' \<notin> set h \<longrightarrow>
      token_required f req s = ((jsonify_error ''Invalid token format'', 401), s) \<and>
      admin_required g req s = ((jsonify_error ''Invalid token format'', 401), s)) \<and>
   (authorization req = Some h \<and> py_index (split_space h) 1 = Inr t \<and> t \<noteq> [] \<longrightarrow>
      (active_tokens s t = None \<longrightarrow>
         token_required f req s = ((jsonify_error ''Invalid or expired token'', 401), s)) \<and>
      (admin_tokens s t = None \<longrightarrow>
         admin_required g req s = ((jsonify_error ''Invalid or expired admin token'', 401), s)))"
  by (auto simp: token_required_def admin_required_def header_token_def split_space_no_space
      py_index_def)

theorem guard_rejections_witness:
  "authorization (anonymous JNull) = None \<and>
   token_required get_current_user (anonymous JNull) example_state =
     ((jsonify_error ''Token is missing'', 401), example_state) \<and>
   admin_required get_statistics (anonymous JNull) example_state =
     ((jsonify_error ''Token is missing'', 401), example_state) \<and>
   authorization \<lparr>authorization = Some ''tokA'', req_json = Some JNull\<rparr> = Some ''tokA'' \<and>
   CHR '' '' \<notin> set ''tokA'' \<and>
   token_required get_current_user \<lparr>authorization = Some ''tokA'', req_json = Some JNull\<rparr>
       example_state =
     ((jsonify_error ''Invalid token format'', 401), example_state) \<and>
   admin_required get_statistics \<lparr>authorization = Some ''tokA'', req_json = Some JNull\<rparr>
       example_state =
     ((jsonify_error ''Invalid token format'', 401), example_state) \<and>
   authorization (bearer ''adm'' :: json request) = Some ''Bearer adm'' \<and>
   py_index (split_space ''Bearer adm'') 1 = Inr ''adm'' \<and> ''adm'' \<noteq> [] \<and>
   active_tokens example_state ''adm'' = None \<and>
   token_required get_current_user (bearer ''adm'' :: json request) example_state =
     ((jsonify_error ''Invalid or expired token'', 401), example_state) \<and>
   authorization (bearer ''tokA'' :: json request) = Some ''Bearer tokA'' \<and>
   py_index (split_space ''Bearer tokA'') 1 = Inr ''tokA'' \<and> ''tokA'' \<noteq> [] \<and>
   admin_tokens example_state ''tokA'' = None \<and>
   admin_required get_statistics (bearer ''tokA'' :: json request) example_state =
     ((jsonify_error ''Invalid or expired admin token'', 401), example_state)"
proof -
  have a: "authorization (bearer ''tokA'' :: json request) = Some ''Bearer tokA''"
    by (simp add: bearer_def)
  have b: "authorization (bearer ''adm'' :: json request) = Some ''Bearer adm''"
    by (simp add: bearer_def)
  have c: "authorization (anonymous JNull) = None" by (simp add: anonymous_def)
  have ta: "active_tokens example_state ''adm'' = None" by (simp add: example_state_def)
  have tb: "admin_tokens example_state ''tokA'' = None" by (simp add: example_state_def)
  show ?thesis
    using guard_rejections [of "anonymous JNull" get_current_user example_state get_statistics]
      guard_rejections [of "\<lparr>authorization = Some ''tokA'', req_json = Some JNull\<rparr>"
        get_current_user example_state get_statistics "''tokA''"]
      guard_rejections [of "bearer ''adm'' :: json request" get_current_user example_state
        get_statistics "''Bearer adm''" "''adm''"]
      guard_rejections [of "bearer ''tokA'' :: json request" get_current_user example_state
        get_statistics "''Bearer tokA''" "''tokA''"]
      a b c ta tb tokA_index adm_index
    by simp
qed

text \<open>
  The claim as it is stated fails for the header \<^verbatim>\<open>"Bearer "\<close>: the extracted token
  is the empty string, which is in no registry, and the rejection is not the one for an
  invalid or expired token.
\<close>

theorem unknown_token_counterexample:
  "authorization (bearer [] :: json request) = Some ''Bearer '' \<and>
   py_index (split_space ''Bearer '') 1 = Inr [] \<and>
   active_tokens example_state [] = None \<and>
   admin_tokens example_state [] = None \<and>
   token_required get_current_user (bearer [] :: json request) example_state \<noteq>
     ((jsonify_error ''Invalid or expired token'', 401), example_state) \<and>
   admin_required get_statistics (bearer [] :: json request) example_state \<noteq>
     ((jsonify_error ''Invalid or expired admin token'', 401), example_state)"
  by (simp add: bearer_def py_index_def example_state_def token_required_def
      admin_required_def header_token_def jsonify_error_def)

section \<open>Properties of the token registries\<close>

text \<open>
  Claim C9. A logout that presents a registered token removes the mapping of that token
  from its own registry and changes nothing else: the state afterwards is the state
  before with the one key deleted, so every other token of both registries resolves as
  before, and the other registry and the tables are untouched.
\<close>

theorem logout_removes_only_its_token:
  assumes "authorization req = Some h" and "py_index (split_space h) 1 = Inr t" and "t \<noteq> []"
  shows "(active_tokens s t = Some uid \<longrightarrow>
            serve art (Logout req) s =
              ((jsonify_message ''Logged out successfully'', 200),
               s\<lparr>active_tokens := (active_tokens s)(t := None)\<rparr>)) \<and>
         (admin_tokens s t = Some aid \<longrightarrow>
            serve art (AdminLogout req) s =
              ((jsonify_message ''Admin logged out successfully'', 200),
               s\<lparr>admin_tokens := (admin_tokens s)(t := None)\<rparr>))"
  using assms
  by (auto simp: token_required_pass [OF assms] admin_required_pass [OF assms]
      logout_def admin_logout_def)

theorem logout_removes_only_its_token_witness:
  "authorization (bearer ''tokA'' :: json request) = Some ''Bearer tokA'' \<and>
   py_index (split_space ''Bearer tokA'') 1 = Inr ''tokA'' \<and> ''tokA'' \<noteq> [] \<and>
   active_tokens example_state ''tokA'' = Some 1 \<and>
   serve example_artifacts (Logout (bearer ''tokA'')) example_state =
     ((jsonify_message ''Logged out successfully'', 200),
      example_state\<lparr>active_tokens := (active_tokens example_state)(''tokA'' := None)\<rparr>) \<and>
   authorization (bearer ''adm'' :: json request) = Some ''Bearer adm'' \<and>
   py_index (split_space ''Bearer adm'') 1 = Inr ''adm'' \<and> ''adm'' \<noteq> [] \<and>
   admin_tokens example_state ''adm'' = Some 1 \<and>
   serve example_artifacts (AdminLogout (bearer ''adm'')) example_state =
     ((jsonify_message ''Admin logged out successfully'', 200),
      example_state\<lparr>admin_tokens := (admin_tokens example_state)(''adm'' := None)\<rparr>)"
proof -
  have a: "authorization (bearer ''tokA'' :: json request) = Some ''Bearer tokA''"
    by (simp add: bearer_def)
  have b: "authorization (bearer ''adm'' :: json request) = Some ''Bearer adm''"
    by (simp add: bearer_def)
  have ta: "active_tokens example_state ''tokA'' = Some 1" by (simp add: example_state_def)
  have tb: "admin_tokens example_state ''adm'' = Some 1" by (simp add: example_state_def)
  have na: "''tokA'' \<noteq> []" and nb: "''adm'' \<noteq> []" by simp_all
  show ?thesis
    using logout_removes_only_its_token [OF a tokA_index na, of example_state 1 example_artifacts 1]
      logout_removes_only_its_token [OF b adm_index nb, of example_state 1 example_artifacts 1]
      a b ta tb tokA_index adm_index
    by simp
qed

section \<open>Properties of the prediction store\<close>

lemma foreign_find:
  assumes "distinct (map pred_id ps)" and "p \<in> set ps" and "pred_user_id p \<noteq> A"
  shows "find (\<lambda>x. pred_id x = pred_id p \<and> pred_user_id x = A) ps = None"
proof -
  have "x = p" if "x \<in> set ps" "pred_id x = pred_id p" for x
    using that assms(1,2) by (meson distinct_map inj_onD)
  then show ?thesis using assms(3) by (auto simp: find_None_iff)
qed

lemma absent_find:
  "q \<notin> pred_id ` set ps \<Longrightarrow> find (\<lambda>x. pred_id x = q \<and> pred_user_id x = A) ps = None"
  by (auto simp: find_None_iff)

text \<open>
  Claim C1. Let \<open>A\<close> be the user a request is authenticated as, and \<open>p\<close> a prediction
  owned by another user \<open>B\<close>. \<^verbatim>\<open>DELETE /history/{id}\<close> and
  \<^verbatim>\<open>PUT /history/{id}/favorite\<close> for the id of \<open>p\<close> return status 404 with the body
  \<^verbatim>\<open>{"error": "Prediction not found"}\<close> and leave the state unchanged, exactly as they
  do for an id \<open>q\<close> that no prediction has. Prediction ids are a primary key (distinct).
\<close>

theorem foreign_prediction_looks_absent:
  assumes "authorization req = Some h" and "py_index (split_space h) 1 = Inr t" and "t \<noteq> []"
    and "active_tokens s t = Some A"
    and "distinct (map pred_id (predictions s))"
    and "p \<in> set (predictions s)" and "pred_user_id p = B" and "A \<noteq> B"
    and "q \<notin> pred_id ` set (predictions s)"
  shows "serve art (DeleteHistory (pred_id p) req) s =
           ((jsonify_error ''Prediction not found'', 404), s) \<and>
         serve art (DeleteHistory q req) s =
           ((jsonify_error ''Prediction not found'', 404), s) \<and>
         serve art (ToggleFavorite (pred_id p) req) s =
           ((jsonify_error ''Prediction not found'', 404), s) \<and>
         serve art (ToggleFavorite q req) s =
           ((jsonify_error ''Prediction not found'', 404), s)"
proof -
  have f: "find (\<lambda>x. pred_id x = pred_id p \<and> pred_user_id x = A) (predictions s) = None"
    using assms(5-8) by (intro foreign_find) auto
  have a: "find (\<lambda>x. pred_id x = q \<and> pred_user_id x = A) (predictions s) = None"
    using assms(9) by (rule absent_find)
  show ?thesis
    by (simp add: token_required_pass [OF assms(1-4)] delete_history_def toggle_favorite_def f a)
qed

theorem foreign_prediction_looks_absent_witness:
  "authorization (bearer ''tokA'' :: json request) = Some ''Bearer tokA'' \<and>
   py_index (split_space ''Bearer tokA'') 1 = Inr ''tokA'' \<and> ''tokA'' \<noteq> [] \<and>
   active_tokens example_state ''tokA'' = Some 1 \<and>
   distinct (map pred_id (predictions example_state)) \<and>
   bobs_prediction \<in> set (predictions example_state) \<and>
   pred_user_id bobs_prediction = 2 \<and> (1::nat) \<noteq> 2 \<and>
   7 \<notin> pred_id ` set (predictions example_state) \<and>
   serve example_artifacts (DeleteHistory (pred_id bobs_prediction) (bearer ''tokA'')) example_state =
     ((jsonify_error ''Prediction not found'', 404), example_state) \<and>
   serve example_artifacts (DeleteHistory 7 (bearer ''tokA'')) example_state =
     ((jsonify_error ''Prediction not found'', 404), example_state) \<and>
   serve example_artifacts (ToggleFavorite (pred_id bobs_prediction) (bearer ''tokA'')) example_state =
     ((jsonify_error ''Prediction not found'', 404), example_state) \<and>
   serve example_artifacts (ToggleFavorite 7 (bearer ''tokA'')) example_state =
     ((jsonify_error ''Prediction not found'', 404), example_state)"
proof -
  have a: "authorization (bearer ''tokA'' :: json request) = Some ''Bearer tokA''"
    by (simp add: bearer_def)
  have na: "''tokA'' \<noteq> []" by simp
  have ta: "active_tokens example_state ''tokA'' = Some 1" by (simp add: example_state_def)
  have d: "distinct (map pred_id (predictions example_state))"
    by (simp add: example_state_def bobs_prediction_def alices_prediction_def)
  have m: "bobs_prediction \<in> set (predictions example_state)" by (simp add: example_state_def)
  have o: "pred_user_id bobs_prediction = 2" by (simp add: bobs_prediction_def)
  have n: "(1::nat) \<noteq> 2" by simp
  have q: "7 \<notin> pred_id ` set (predictions example_state)"
    by (simp add: example_state_def bobs_prediction_def alices_prediction_def)
  show ?thesis
    using foreign_prediction_looks_absent [OF a tokA_index na ta d m o n q, of example_artifacts]
      a tokA_index ta d m o q
    by simp
qed

section \<open>Properties of the administration\<close>

lemma length_newest_first: "length (newest_first k xs) = length xs"
  by (simp add: newest_first_def)

lemma set_newest_first: "set (newest_first k xs) = set xs"
  by (simp add: newest_first_def)

text \<open>
  Claim C6. With no stored prediction, \<^verbatim>\<open>GET /admin/stats\<close> answers 200 with
  \<open>avg_price\<close>, \<open>min_price\<close> and \<open>max_price\<close> all 0: the branches that divide by
  the number of predictions and that take the maximum and minimum of the prices are not
  evaluated, so neither \<^verbatim>\<open>ZeroDivisionError\<close> nor \<^verbatim>\<open>ValueError\<close> is raised.
\<close>

theorem stats_of_empty_store:
  assumes "authorization req = Some h" and "py_index (split_space h) 1 = Inr t" and "t \<noteq> []"
    and "admin_tokens s t = Some aid"
    and "predictions s = []"
  shows "serve art (GetStatistics req) s =
           ((Json (JObj [(''total_users'', JInt (int (length (users s)))),
                         (''total_predictions'', JInt 0),
                         (''avg_price'', JInt 0),
                         (''max_price'', JInt 0),
                         (''min_price'', JInt 0),
                         (''recent_users_count'', JInt (int (min (length (users s)) 5))),
                         (''recent_predictions_count'', JInt 0)]), 200), s)"
  by (simp add: admin_required_pass [OF assms(1-4)] get_statistics_def assms(5) and_then_def
      length_newest_first newest_first_def)

theorem stats_of_empty_store_witness:
  "authorization (bearer ''adm'' :: json request) = Some ''Bearer adm'' \<and>
   py_index (split_space ''Bearer adm'') 1 = Inr ''adm'' \<and> ''adm'' \<noteq> [] \<and>
   admin_tokens (example_state\<lparr>predictions := []\<rparr>) ''adm'' = Some 1 \<and>
   predictions (example_state\<lparr>predictions := []\<rparr>) = [] \<and>
   serve example_artifacts (GetStatistics (bearer ''adm'')) (example_state\<lparr>predictions := []\<rparr>) =
     ((Json (JObj [(''total_users'', JInt 2),
                   (''total_predictions'', JInt 0),
                   (''avg_price'', JInt 0),
                   (''max_price'', JInt 0),
                   (''min_price'', JInt 0),
                   (''recent_users_count'', JInt 2),
                   (''recent_predictions_count'', JInt 0)]), 200),
      example_state\<lparr>predictions := []\<rparr>)"
proof -
  have b: "authorization (bearer ''adm'' :: json request) = Some ''Bearer adm''"
    by (simp add: bearer_def)
  have nb: "''adm'' \<noteq> []" by simp
  have tb: "admin_tokens (example_state\<lparr>predictions := []\<rparr>) ''adm'' = Some 1"
    by (simp add: example_state_def)
  have e: "predictions (example_state\<lparr>predictions := []\<rparr>) = []" by simp
  have u: "length (users (example_state\<lparr>predictions := []\<rparr>)) = 2"
    by (simp add: example_state_def)
  show ?thesis
    using stats_of_empty_store [OF b adm_index nb tb e, of example_artifacts] b adm_index tb u
    by simp
qed

lemma get_user_deleted:
  "get_user (s\<lparr>users := filter (\<lambda>x. user_id x \<noteq> uid) (users s)\<rparr>) uid = None"
  by (simp add: get_user_def find_None_iff)

lemma get_user_id: "get_user s uid = Some u \<Longrightarrow> user_id u = uid"
  by (auto simp: get_user_def find_Some_iff)

text \<open>
  Claim C8. \<^verbatim>\<open>DELETE /admin/users/{id}\<close> for an existing user removes the rows of the
  user table with that id and nothing else: the predictions, the administrators and both
  registries stay as they were. In the state after it, \<^verbatim>\<open>GET /admin/predictions\<close> lists
  every stored prediction, and the entry of each prediction owned by the deleted user
  carries the owner email \<^verbatim>\<open>Unknown\<close>.
\<close>

theorem delete_user_orphans_predictions:
  assumes "authorization req = Some h" and "py_index (split_space h) 1 = Inr t" and "t \<noteq> []"
    and "admin_tokens s t = Some aid"
    and "get_user s uid = Some u"
  shows "serve art (DeleteUser uid req) s =
           ((jsonify_message ''User deleted successfully'', 200),
            s\<lparr>users := filter (\<lambda>x. user_id x \<noteq> uid) (users s)\<rparr>) \<and>
         (\<exists>js. serve art (GetAllPredictions req) (snd (serve art (DeleteUser uid req) s)) =
                 ((Json (JArr js), 200), snd (serve art (DeleteUser uid req) s)) \<and>
               length js = length (predictions s) \<and>
               (\<forall>p \<in> set (predictions s). pred_user_id p = uid \<longrightarrow>
                  JObj [(''id'', JInt (int (pred_id p))),
                        (''user_email'', JStr ''Unknown''),
                        (''user_id'', JInt (int uid)),
                        (''input'', input_data p),
                        (''price'', JFloat (Finite (price p))),
                        (''favorite'', JBool (favorite p)),
                        (''created_at'', JDate (pred_created_at p))] \<in> set js))"
proof -
  let ?s' = "s\<lparr>users := filter (\<lambda>x. user_id x \<noteq> uid) (users s)\<rparr>"
  have d: "serve art (DeleteUser uid req) s =
      ((jsonify_message ''User deleted successfully'', 200), ?s')"
    using get_user_id [OF assms(5)]
    by (simp add: admin_required_pass [OF assms(1-4)] delete_user_def assms(5))
  have tok: "admin_tokens ?s' t = Some aid" using assms(4) by simp
  have g: "serve art (GetAllPredictions req) ?s' = get_all_predictions aid req ?s'"
    by (simp add: admin_required_pass [OF assms(1-3) tok])
  show ?thesis
    unfolding d snd_conv g
    by (auto simp: get_all_predictions_def Let_def length_newest_first set_newest_first
        get_user_deleted image_iff intro!: bexI)
qed

theorem delete_user_orphans_predictions_witness:
  "authorization (bearer ''adm'' :: json request) = Some ''Bearer adm'' \<and>
   py_index (split_space ''Bearer adm'') 1 = Inr ''adm'' \<and> ''adm'' \<noteq> [] \<and>
   admin_tokens example_state ''adm'' = Some 1 \<and>
   get_user example_state 2 = Some bob \<and>
   serve example_artifacts (DeleteUser 2 (bearer ''adm'')) example_state =
     ((jsonify_message ''User deleted successfully'', 200),
      example_state\<lparr>users := filter (\<lambda>x. user_id x \<noteq> 2) (users example_state)\<rparr>) \<and>
   (\<exists>js. serve example_artifacts (GetAllPredictions (bearer ''adm''))
            (snd (serve example_artifacts (DeleteUser 2 (bearer ''adm'')) example_state)) =
            ((Json (JArr js), 200),
             snd (serve example_artifacts (DeleteUser 2 (bearer ''adm'')) example_state)) \<and>
          length js = length (predictions example_state) \<and>
          JObj [(''id'', JInt 1),
                (''user_email'', JStr ''Unknown''),
                (''user_id'', JInt 2),
                (''input'', example_payload),
                (''price'', JFloat (Finite 4766660.5)),
                (''favorite'', JBool False),
                (''created_at'', JDate 30)] \<in> set js)"
proof -
  have b: "authorization (bearer ''adm'' :: json request) = Some ''Bearer adm''"
    by (simp add: bearer_def)
  have nb: "''adm'' \<noteq> []" by simp
  have tb: "admin_tokens example_state ''adm'' = Some 1" by (simp add: example_state_def)
  have g: "get_user example_state 2 = Some bob"
    by (simp add: get_user_def example_state_def alice_def bob_def)
  have m: "bobs_prediction \<in> set (predictions example_state)" by (simp add: example_state_def)
  have f: "pred_id bobs_prediction = 1" "pred_user_id bobs_prediction = 2"
    "input_data bobs_prediction = example_payload" "price bobs_prediction = 4766660.5"
    "favorite bobs_prediction = False" "pred_created_at bobs_prediction = 30"
    by (simp_all add: bobs_prediction_def)
  from delete_user_orphans_predictions [OF b adm_index nb tb g, of example_artifacts]
  obtain js where d: "serve example_artifacts (DeleteUser 2 (bearer ''adm'')) example_state =
     ((jsonify_message ''User deleted successfully'', 200),
      example_state\<lparr>users := filter (\<lambda>x. user_id x \<noteq> 2) (users example_state)\<rparr>)"
    and l: "serve example_artifacts (GetAllPredictions (bearer ''adm''))
            (snd (serve example_artifacts (DeleteUser 2 (bearer ''adm'')) example_state)) =
            ((Json (JArr js), 200),
             snd (serve example_artifacts (DeleteUser 2 (bearer ''adm'')) example_state))"
    and n: "length js = length (predictions example_state)"
    and a: "\<forall>p \<in> set (predictions example_state). pred_user_id p = 2 \<longrightarrow>
                  JObj [(''id'', JInt (int (pred_id p))),
                        (''user_email'', JStr ''Unknown''),
                        (''user_id'', JInt (int 2)),
                        (''input'', input_data p),
                        (''price'', JFloat (Finite (price p))),
                        (''favorite'', JBool (favorite p)),
                        (''created_at'', JDate (pred_created_at p))] \<in> set js"
    by blast
  from a m f(2) have "JObj [(''id'', JInt (int (pred_id bobs_prediction))),
                        (''user_email'', JStr ''Unknown''),
                        (''user_id'', JInt (int 2)),
                        (''input'', input_data bobs_prediction),
                        (''price'', JFloat (Finite (price bobs_prediction))),
                        (''favorite'', JBool (favorite bobs_prediction)),
                        (''created_at'', JDate (pred_created_at bobs_prediction))] \<in> set js"
    by blast
  then have "JObj [(''id'', JInt 1),
                (''user_email'', JStr ''Unknown''),
                (''user_id'', JInt 2),
                (''input'', example_payload),
                (''price'', JFloat (Finite 4766660.5)),
                (''favorite'', JBool False),
                (''created_at'', JDate 30)] \<in> set js"
    by (simp add: f)
  with b adm_index nb tb g d l n show ?thesis by blast
qed

section \<open>Properties of the prediction endpoint\<close>

lemma and_then_Inr: "and_then m f = Inr y \<longleftrightarrow> (\<exists>x. m = Inr x \<and> f x = Inr y)"
  by (cases m) (simp_all add: and_then_def)

lemma and_then_Inl: "and_then m f = Inl e \<longleftrightarrow> m = Inl e \<or> (\<exists>x. m = Inr x \<and> f x = Inl e)"
  by (cases m) (simp_all add: and_then_def)

lemma translate_Inr_iff:
  "translate art data = Inr v \<longleftrightarrow>
     (\<exists>a b c d m g bs h ac p pf fs area bedrooms bathrooms stories parking code.
        getitem data ''area'' = Inr a \<and> py_float art a = Inr area \<and>
        getitem data ''bedrooms'' = Inr b \<and> py_int art b = Inr bedrooms \<and>
        getitem data ''bathrooms'' = Inr c \<and> py_int art c = Inr bathrooms \<and>
        getitem data ''stories'' = Inr d \<and> py_int art d = Inr stories \<and>
        getitem data ''mainroad'' = Inr m \<and>
        getitem data ''guestroom'' = Inr g \<and>
        getitem data ''basement'' = Inr bs \<and>
        getitem data ''hotwaterheating'' = Inr h \<and>
        getitem data ''airconditioning'' = Inr ac \<and>
        getitem data ''parking'' = Inr p \<and> py_int art p = Inr parking \<and>
        getitem data ''prefarea'' = Inr pf \<and>
        getitem data ''furnishingstatus'' = Inr fs \<and> furnishing_transform art fs = Inr code \<and>
        v = [PyFloat area, PyInt bedrooms, PyInt bathrooms, PyInt stories,
             PyInt (yn m), PyInt (yn g), PyInt (yn bs), PyInt (yn h), PyInt (yn ac),
             PyInt parking, PyInt (yn pf), PyInt code])"
  unfolding translate_def and_then_Inr by auto

lemma translate_Inr:
  assumes "translate art data = Inr v"
  shows "(\<forall>k \<in> set [''area'', ''bedrooms'', ''bathrooms'', ''stories'', ''mainroad'',
                      ''guestroom'', ''basement'', ''hotwaterheating'', ''airconditioning'',
                      ''parking'', ''prefarea'', ''furnishingstatus'']. \<exists>x. getitem data k = Inr x) \<and>
         (\<exists>x y. getitem data ''area'' = Inr x \<and> py_float art x = Inr y) \<and>
         (\<forall>k \<in> set [''bedrooms'', ''bathrooms'', ''stories'', ''parking''].
             \<exists>x y. getitem data k = Inr x \<and> py_int art x = Inr y) \<and>
         (\<exists>x y. getitem data ''furnishingstatus'' = Inr x \<and> furnishing_transform art x = Inr y)"
  using assms unfolding translate_def and_then_Inr by auto

text \<open>
  Claim C4. Let a \<^verbatim>\<open>POST /predict\<close> request pass the guard and carry a JSON body. If
  the feature translation or the inference fails (a key of the payload is missing,
  \<^verbatim>\<open>float\<close> raises on the area, \<^verbatim>\<open>int\<close> raises on a count, the encoder rejects the
  furnishing status, or the model raises) then the response is the error body of the
  exception with status 400, and the state, the prediction table with it, is exactly
  what it was. This holds whatever the interpreter's conversions, the encoder and the
  model do.
\<close>

theorem failed_prediction_writes_nothing:
  assumes "authorization req = Some h" and "py_index (split_space h) 1 = Inr t" and "t \<noteq> []"
    and "active_tokens s t = Some uid"
    and "req_json req = Some data"
    and "(\<exists>k \<in> set [''area'', ''bedrooms'', ''bathrooms'', ''stories'', ''mainroad'',
                      ''guestroom'', ''basement'', ''hotwaterheating'', ''airconditioning'',
                      ''parking'', ''prefarea'', ''furnishingstatus'']. \<exists>e. getitem data k = Inl e) \<or>
         (\<exists>x e. getitem data ''area'' = Inr x \<and> py_float art x = Inl e) \<or>
         (\<exists>k \<in> set [''bedrooms'', ''bathrooms'', ''stories'', ''parking''].
             \<exists>x e. getitem data k = Inr x \<and> py_int art x = Inl e) \<or>
         (\<exists>x e. getitem data ''furnishingstatus'' = Inr x \<and> furnishing_transform art x = Inl e) \<or>
         (\<exists>e. translate art data = Inl e) \<or>
         (\<exists>v e. translate art data = Inr v \<and> model_predict art v = Inl e)"
  shows "\<exists>e. serve art (Predict now req) s = ((ErrorOf e, 400), s)"
proof -
  have p: "serve art (Predict now req) s = predict art now uid req s"
    by (simp add: token_required_pass [OF assms(1-4)])
  have "(\<exists>e. translate art data = Inl e) \<or>
        (\<exists>v e. translate art data = Inr v \<and> model_predict art v = Inl e)"
  proof (cases "translate art data")
    case (Inl e)
    then show ?thesis by blast
  next
    case (Inr v)
    from translate_Inr [OF Inr] assms(6) Inr show ?thesis
      by (metis Inl_Inr_False sum.inject(2))
  qed
  then show ?thesis
    unfolding p by (auto simp: predict_def assms(5) and_then_def)
qed

theorem failed_prediction_writes_nothing_witness:
  "authorization (bearer_json ''tokA'' (JObj [(''area'', JNull)])) = Some ''Bearer tokA'' \<and>
   py_index (split_space ''Bearer tokA'') 1 = Inr ''tokA'' \<and> ''tokA'' \<noteq> [] \<and>
   active_tokens example_state ''tokA'' = Some 1 \<and>
   req_json (bearer_json ''tokA'' (JObj [(''area'', JNull)])) =
     Some (JObj [(''area'', JNull)]) \<and>
   getitem (JObj [(''area'', JNull)]) ''area'' = Inr JNull \<and>
   py_float example_artifacts JNull = Inl TypeError \<and>
   (\<exists>e. serve example_artifacts (Predict 50 (bearer_json ''tokA'' (JObj [(''area'', JNull)])))
          example_state = ((ErrorOf e, 400), example_state))"
proof -
  let ?d = "JObj [(''area'', JNull)]"
  have a: "authorization (bearer_json ''tokA'' ?d) = Some ''Bearer tokA''"
    by (simp add: bearer_json_def)
  have na: "''tokA'' \<noteq> []" by simp
  have ta: "active_tokens example_state ''tokA'' = Some 1" by (simp add: example_state_def)
  have j: "req_json (bearer_json ''tokA'' ?d) = Some ?d" by (simp add: bearer_json_def)
  have g: "getitem ?d ''area'' = Inr JNull" by simp
  have f: "py_float example_artifacts JNull = Inl TypeError" by simp
  have c: "(\<exists>k \<in> set [''area'', ''bedrooms'', ''bathrooms'', ''stories'', ''mainroad'',
                      ''guestroom'', ''basement'', ''hotwaterheating'', ''airconditioning'',
                      ''parking'', ''prefarea'', ''furnishingstatus'']. \<exists>e. getitem ?d k = Inl e) \<or>
         (\<exists>x e. getitem ?d ''area'' = Inr x \<and> py_float example_artifacts x = Inl e) \<or>
         (\<exists>k \<in> set [''bedrooms'', ''bathrooms'', ''stories'', ''parking''].
             \<exists>x e. getitem ?d k = Inr x \<and> py_int example_artifacts x = Inl e) \<or>
         (\<exists>x e. getitem ?d ''furnishingstatus'' = Inr x \<and>
                furnishing_transform example_artifacts x = Inl e) \<or>
         (\<exists>e. translate example_artifacts ?d = Inl e) \<or>
         (\<exists>v e. translate example_artifacts ?d = Inr v \<and> model_predict example_artifacts v = Inl e)"
    using g f by blast
  show ?thesis
    using failed_prediction_writes_nothing [OF a tokA_index na ta j c, of 50] a tokA_index ta j g f
    by simp
qed

section \<open>Properties of the feature translation\<close>

lemma lower_char_upper:
  fixes n :: nat
  assumes "65 \<le> n" and "n \<le> 90"
  shows "lower_char (char_of n) = char_of (n + 32)"
  using assms by (simp add: lower_char_def Let_def)

lemma lower_char_other:
  assumes "\<not> (65 \<le> (of_char c :: nat) \<and> (of_char c :: nat) \<le> 90)"
  shows "lower_char c = c"
  using assms by (auto simp add: lower_char_def Let_def)

lemma char_of_small_eq:
  fixes m n :: nat
  assumes "m < 256" and "n < 256"
  shows "(char_of m :: char) = char_of n \<longleftrightarrow> m = n"
  using assms by simp

lemma lower_char_eq:
  fixes k :: nat
  assumes "97 \<le> k" and "k \<le> 122"
  shows "lower_char c = char_of k \<longleftrightarrow> c = char_of k \<or> c = char_of (k - 32)"
proof -
  define n :: nat where "n = of_char c"
  have c: "c = char_of n" by (simp add: n_def)
  have n: "n < 256" by (simp add: n_def)
  have k: "k < 256" "k - 32 < 256" using assms by simp_all
  have ck: "c = char_of k \<longleftrightarrow> n = k"
    unfolding c using char_of_small_eq [OF n k(1)] .
  have ck': "c = char_of (k - 32) \<longleftrightarrow> n = k - 32"
    unfolding c using char_of_small_eq [OF n k(2)] .
  show ?thesis
  proof (cases "65 \<le> n \<and> n \<le> 90")
    case True
    then have l: "lower_char c = char_of (n + 32)"
      unfolding c by (simp add: lower_char_upper)
    have "n + 32 < 256" using True by simp
    from char_of_small_eq [OF this k(1)]
    have "lower_char c = char_of k \<longleftrightarrow> n + 32 = k" unfolding l .
    with ck ck' True assms show ?thesis by auto
  next
    case False
    then have "lower_char c = c"
      by (auto simp: n_def intro: lower_char_other)
    with ck ck' False assms show ?thesis by auto
  qed
qed

lemma lower_char_yes:
  "lower_char c = CHR ''y'' \<longleftrightarrow> c = CHR ''y'' \<or> c = CHR ''Y''"
  "lower_char c = CHR ''e'' \<longleftrightarrow> c = CHR ''e'' \<or> c = CHR ''E''"
  "lower_char c = CHR ''s'' \<longleftrightarrow> c = CHR ''s'' \<or> c = CHR ''S''"
proof -
  have "char_of (121::nat) = CHR ''y''" "char_of (89::nat) = CHR ''Y''"
    "char_of (101::nat) = CHR ''e''" "char_of (69::nat) = CHR ''E''"
    "char_of (115::nat) = CHR ''s''" "char_of (83::nat) = CHR ''S''"
    by (simp_all add: char_of_eq_iff)
  then show "lower_char c = CHR ''y'' \<longleftrightarrow> c = CHR ''y'' \<or> c = CHR ''Y''"
  "lower_char c = CHR ''e'' \<longleftrightarrow> c = CHR ''e'' \<or> c = CHR ''E''"
  "lower_char c = CHR ''s'' \<longleftrightarrow> c = CHR ''s'' \<or> c = CHR ''S''"
    using lower_char_eq [of 121 c] lower_char_eq [of 101 c] lower_char_eq [of 115 c]
    by simp_all
qed

lemma lower_yes:
  "lower s = ''yes'' \<longleftrightarrow>
     (\<exists>a b c. s = [a, b, c] \<and> a \<in> {CHR ''y'', CHR ''Y''} \<and> b \<in> {CHR ''e'', CHR ''E''} \<and>
              c \<in> {CHR ''s'', CHR ''S''})"
proof
  assume l: "lower s = ''yes''"
  then obtain a r1 where s1: "s = a # r1" and a: "lower_char a = CHR ''y''"
    and r1: "map lower_char r1 = ''es''"
    unfolding lower_def by (cases s) simp_all
  from r1 obtain b r2 where s2: "r1 = b # r2" and b: "lower_char b = CHR ''e''"
    and r2: "map lower_char r2 = ''s''"
    by (cases r1) simp_all
  from r2 obtain c r3 where s3: "r2 = c # r3" and c: "lower_char c = CHR ''s''"
    and r3: "map lower_char r3 = []"
    by (cases r2) simp_all
  from r3 have "r3 = []" by simp
  with s1 s2 s3 have "s = [a, b, c]" by simp
  moreover from a have "a \<in> {CHR ''y'', CHR ''Y''}" by (simp only: lower_char_yes) blast
  moreover from b have "b \<in> {CHR ''e'', CHR ''E''}" by (simp only: lower_char_yes) blast
  moreover from c have "c \<in> {CHR ''s'', CHR ''S''}" by (simp only: lower_char_yes) blast
  ultimately show "\<exists>a b c. s = [a, b, c] \<and> a \<in> {CHR ''y'', CHR ''Y''} \<and>
      b \<in> {CHR ''e'', CHR ''E''} \<and> c \<in> {CHR ''s'', CHR ''S''}"
    by blast
next
  assume "\<exists>a b c. s = [a, b, c] \<and> a \<in> {CHR ''y'', CHR ''Y''} \<and>
      b \<in> {CHR ''e'', CHR ''E''} \<and> c \<in> {CHR ''s'', CHR ''S''}"
  then obtain a b c where s: "s = [a, b, c]" and "a = CHR ''y'' \<or> a = CHR ''Y''"
    and "b = CHR ''e'' \<or> b = CHR ''E''" and "c = CHR ''s'' \<or> c = CHR ''S''"
    by blast
  then have "lower_char a = CHR ''y''" "lower_char b = CHR ''e''" "lower_char c = CHR ''s''"
    by (simp_all only: lower_char_yes)
  with s show "lower s = ''yes''" by (simp add: lower_def)
qed

lemma translate_map_of:
  "map_of kvs = map_of kvs' \<Longrightarrow> translate art (JObj kvs) = translate art (JObj kvs')"
  by (simp add: translate_def)

lemma translate_example:
  assumes "furnishing_transform art (JStr ''semi-furnished'') = Inr e"
  shows "translate art example_payload =
           Inr [PyFloat (Finite 7500), PyInt 4, PyInt 2, PyInt 2, PyInt 1, PyInt 0, PyInt 1,
                PyInt 0, PyInt 1, PyInt 2, PyInt 1, PyInt e]"
  using assms
  by (simp add: translate_def example_payload_def and_then_def short_digits_def lower_def
      lower_char_def is_digit_def digits_value_def digit_val_def)

lemma yn_cases:
  "yn x = (if \<exists>a b c. x = JStr [a, b, c] \<and> a \<in> {CHR ''y'', CHR ''Y''} \<and>
                 b \<in> {CHR ''e'', CHR ''E''} \<and> c \<in> {CHR ''s'', CHR ''S''}
           then 1 else 0)"
proof (cases x)
  case (JStr s)
  show ?thesis unfolding JStr yn.simps lower_yes by simp
qed simp_all

lemma predict_translated:
  assumes "req_json req = Some data" and "translate art data = Inr v"
  shows "predict art now uid req s =
           (case model_predict art v of
              Inl err \<Rightarrow> ((ErrorOf err, 400), s)
            | Inr raw \<Rightarrow>
                ((Json (JObj [(''predicted_price'', JFloat (Finite (round2 raw))),
                              (''prediction_id'',
                                 JInt (int (next_id (map pred_id (predictions s)))))]), 200),
                 s\<lparr>predictions := predictions s @
                      [\<lparr>pred_id = next_id (map pred_id (predictions s)),
                        pred_user_id = uid, input_data = data,
                        price = round2 raw, favorite = False,
                        pred_created_at = now\<rparr>]\<rparr>))"
  by (simp add: predict_def assms and_then_def Let_def split: sum.splits)

text \<open>
  Claim C7. The feature vector is a function of the payload and of the fixed environment
  alone (\<open>translate\<close> takes neither the state nor the clock). For every payload the
  translation succeeds exactly when all twelve members are present and the conversions
  succeed, and the vector is then, position by position, the float of the area, the
  integers of bedrooms, bathrooms and stories, \<open>yn\<close> of mainroad, guestroom, basement,
  hotwaterheating and airconditioning, the integer of parking, \<open>yn\<close> of prefarea, and
  the encoder's code of the furnishing status. \<open>yn\<close> is 1 on the string \<^verbatim>\<open>yes\<close> in any
  case of letters and 0 on every other JSON value. For the example payload of the
  specification the vector is \<open>[7500.0, 4, 2, 2, 1, 0, 1, 0, 1, 2, 1, e]\<close>, where \<open>e\<close>
  is the encoder's code for \<^verbatim>\<open>semi-furnished\<close>. \<open>predict\<close> hands the translated vector,
  and nothing else, to the model; and two payloads with the same members give the same
  vector whatever the order of their members.
\<close>

theorem translate_vector:
  assumes "furnishing_transform art (JStr ''semi-furnished'') = Inr e"
  shows "(\<forall>data v. translate art data = Inr v \<longleftrightarrow>
            (\<exists>a b c d m g bs h ac p pf fs area bedrooms bathrooms stories parking code.
               getitem data ''area'' = Inr a \<and> py_float art a = Inr area \<and>
               getitem data ''bedrooms'' = Inr b \<and> py_int art b = Inr bedrooms \<and>
               getitem data ''bathrooms'' = Inr c \<and> py_int art c = Inr bathrooms \<and>
               getitem data ''stories'' = Inr d \<and> py_int art d = Inr stories \<and>
               getitem data ''mainroad'' = Inr m \<and>
               getitem data ''guestroom'' = Inr g \<and>
               getitem data ''basement'' = Inr bs \<and>
               getitem data ''hotwaterheating'' = Inr h \<and>
               getitem data ''airconditioning'' = Inr ac \<and>
               getitem data ''parking'' = Inr p \<and> py_int art p = Inr parking \<and>
               getitem data ''prefarea'' = Inr pf \<and>
               getitem data ''furnishingstatus'' = Inr fs \<and>
               furnishing_transform art fs = Inr code \<and>
               v = [PyFloat area, PyInt bedrooms, PyInt bathrooms, PyInt stories,
                    PyInt (yn m), PyInt (yn g), PyInt (yn bs), PyInt (yn h), PyInt (yn ac),
                    PyInt parking, PyInt (yn pf), PyInt code])) \<and>
         (\<forall>x. yn x = (if \<exists>a b c. x = JStr [a, b, c] \<and> a \<in> {CHR ''y'', CHR ''Y''} \<and>
                            b \<in> {CHR ''e'', CHR ''E''} \<and> c \<in> {CHR ''s'', CHR ''S''}
                      then 1 else 0)) \<and>
         translate art example_payload =
           Inr [PyFloat (Finite 7500), PyInt 4, PyInt 2, PyInt 2, PyInt 1, PyInt 0, PyInt 1,
                PyInt 0, PyInt 1, PyInt 2, PyInt 1, PyInt e] \<and>
         (\<forall>data v (req :: json request) now uid s.
            req_json req = Some data \<and> translate art data = Inr v \<longrightarrow>
            predict art now uid req s =
              (case model_predict art v of
                 Inl err \<Rightarrow> ((ErrorOf err, 400), s)
               | Inr raw \<Rightarrow>
                   ((Json (JObj [(''predicted_price'', JFloat (Finite (round2 raw))),
                                 (''prediction_id'',
                                    JInt (int (next_id (map pred_id (predictions s)))))]), 200),
                    s\<lparr>predictions := predictions s @
                         [\<lparr>pred_id = next_id (map pred_id (predictions s)),
                           pred_user_id = uid, input_data = data,
                           price = round2 raw, favorite = False,
                           pred_created_at = now\<rparr>]\<rparr>))) \<and>
         (\<forall>kvs kvs'. map_of kvs = map_of kvs' \<longrightarrow>
            translate art (JObj kvs) = translate art (JObj kvs'))"
proof (intro conjI allI impI)
  fix data v
  show "translate art data = Inr v \<longleftrightarrow>
            (\<exists>a b c d m g bs h ac p pf fs area bedrooms bathrooms stories parking code.
               getitem data ''area'' = Inr a \<and> py_float art a = Inr area \<and>
               getitem data ''bedrooms'' = Inr b \<and> py_int art b = Inr bedrooms \<and>
               getitem data ''bathrooms'' = Inr c \<and> py_int art c = Inr bathrooms \<and>
               getitem data ''stories'' = Inr d \<and> py_int art d = Inr stories \<and>
               getitem data ''mainroad'' = Inr m \<and>
               getitem data ''guestroom'' = Inr g \<and>
               getitem data ''basement'' = Inr bs \<and>
               getitem data ''hotwaterheating'' = Inr h \<and>
               getitem data ''airconditioning'' = Inr ac \<and>
               getitem data ''parking'' = Inr p \<and> py_int art p = Inr parking \<and>
               getitem data ''prefarea'' = Inr pf \<and>
               getitem data ''furnishingstatus'' = Inr fs \<and>
               furnishing_transform art fs = Inr code \<and>
               v = [PyFloat area, PyInt bedrooms, PyInt bathrooms, PyInt stories,
                    PyInt (yn m), PyInt (yn g), PyInt (yn bs), PyInt (yn h), PyInt (yn ac),
                    PyInt parking, PyInt (yn pf), PyInt code])"
    by (rule translate_Inr_iff)
next
  fix x
  show "yn x = (if \<exists>a b c. x = JStr [a, b, c] \<and> a \<in> {CHR ''y'', CHR ''Y''} \<and>
                            b \<in> {CHR ''e'', CHR ''E''} \<and> c \<in> {CHR ''s'', CHR ''S''}
                      then 1 else 0)"
    by (rule yn_cases)
next
  show "translate art example_payload =
           Inr [PyFloat (Finite 7500), PyInt 4, PyInt 2, PyInt 2, PyInt 1, PyInt 0, PyInt 1,
                PyInt 0, PyInt 1, PyInt 2, PyInt 1, PyInt e]"
    by (rule translate_example [OF assms])
next
  fix data v and req :: "json request" and now uid s
  assume "req_json req = Some data \<and> translate art data = Inr v"
  then show "predict art now uid req s =
              (case model_predict art v of
                 Inl err \<Rightarrow> ((ErrorOf err, 400), s)
               | Inr raw \<Rightarrow>
                   ((Json (JObj [(''predicted_price'', JFloat (Finite (round2 raw))),
                                 (''prediction_id'',
                                    JInt (int (next_id (map pred_id (predictions s)))))]), 200),
                    s\<lparr>predictions := predictions s @
                         [\<lparr>pred_id = next_id (map pred_id (predictions s)),
                           pred_user_id = uid, input_data = data,
                           price = round2 raw, favorite = False,
                           pred_created_at = now\<rparr>]\<rparr>))"
    by (intro predict_translated) simp_all
next
  fix kvs kvs' :: "(string \<times> json) list"
  assume "map_of kvs = map_of kvs'"
  then show "translate art (JObj kvs) = translate art (JObj kvs')"
    by (rule translate_map_of)
qed

theorem translate_vector_witness:
  "furnishing_transform example_artifacts (JStr ''semi-furnished'') = Inr 1 \<and>
   translate example_artifacts example_payload =
     Inr [PyFloat (Finite 7500), PyInt 4, PyInt 2, PyInt 2, PyInt 1, PyInt 0, PyInt 1,
          PyInt 0, PyInt 1, PyInt 2, PyInt 1, PyInt 1] \<and>
   yn (JStr ''YES'') = 1 \<and> yn (JStr ''Yes'') = 1 \<and> yn (JStr ''no'') = 0 \<and> yn (JBool True) = 0"
proof -
  have h: "furnishing_transform example_artifacts (JStr ''semi-furnished'') = Inr 1"
    by (simp add: example_artifacts_def)
  from translate_vector [OF h] have
    t: "translate example_artifacts example_payload =
     Inr [PyFloat (Finite 7500), PyInt 4, PyInt 2, PyInt 2, PyInt 1, PyInt 0, PyInt 1,
          PyInt 0, PyInt 1, PyInt 2, PyInt 1, PyInt 1]"
    and y: "\<And>x. yn x = (if \<exists>a b c. x = JStr [a, b, c] \<and> a \<in> {CHR ''y'', CHR ''Y''} \<and>
                            b \<in> {CHR ''e'', CHR ''E''} \<and> c \<in> {CHR ''s'', CHR ''S''}
                      then 1 else 0)"
    by blast+
  have "yn (JStr ''YES'') = 1" "yn (JStr ''Yes'') = 1" "yn (JStr ''no'') = 0"
    "yn (JBool True) = 0"
    by (simp_all add: y)
  with h t show ?thesis by simp
qed

section \<open>Tokens and the owners of predictions\<close>

















lemma snd_case_sum: "snd (case x of Inl e \<Rightarrow> (f e, s) | Inr y \<Rightarrow> (g y, s)) = s"
  by (cases x) simp_all



lemma read_only_statistics: "snd (get_statistics aid req s) = s"
  unfolding get_statistics_def Let_def by (rule snd_case_sum)






























section \<open>The block flag\<close>

lemma unblock_fields [simp]:
  "user_id (unblock u) = user_id u" "user_email (unblock u) = user_email u"
  "user_password (unblock u) = user_password u" "user_created_at (unblock u) = user_created_at u"
  by (simp_all add: unblock_def)

lemma unblock_eq:
  assumes "unblock u = unblock u'"
  shows "user_id u = user_id u'" "user_email u = user_email u'"
    "user_password u = user_password u'" "user_created_at u = user_created_at u'"
  using arg_cong [OF assms, of user_id] arg_cong [OF assms, of user_email]
    arg_cong [OF assms, of user_password] arg_cong [OF assms, of user_created_at]
  by simp_all

lemma unblock_map_length: "map unblock xs = map unblock ys \<Longrightarrow> length xs = length ys"
  by (rule map_eq_imp_length_eq)

lemma unblock_map_ids:
  assumes "map unblock xs = map unblock ys"
  shows "map user_id xs = map user_id ys"
proof -
  have "map user_id xs = map user_id (map unblock xs)" by simp
  also have "\<dots> = map user_id (map unblock ys)" by (simp only: assms)
  also have "\<dots> = map user_id ys" by simp
  finally show ?thesis .
qed

lemma unblock_find:
  assumes "map unblock xs = map unblock ys"
  shows "map_option unblock (find (\<lambda>u. Q (unblock u)) xs) =
         map_option unblock (find (\<lambda>u. Q (unblock u)) ys)"
  using assms
proof (induction xs arbitrary: ys)
  case Nil
  then show ?case by simp
next
  case (Cons x xs)
  then obtain y ys' where ys: "ys = y # ys'" by (cases ys) auto
  with Cons.prems have "unblock x = unblock y" "map unblock xs = map unblock ys'" by simp_all
  with Cons.IH [of ys'] show ?case by (simp add: ys)
qed

lemma unblock_find_email:
  assumes "map unblock xs = map unblock ys"
  shows "map_option unblock (find (\<lambda>u. user_email u = e) xs) =
         map_option unblock (find (\<lambda>u. user_email u = e) ys)"
  using unblock_find [OF assms, of "\<lambda>u. user_email u = e"] by simp

lemma unblock_find_id:
  assumes "map unblock xs = map unblock ys"
  shows "map_option unblock (find (\<lambda>u. user_id u = i) xs) =
         map_option unblock (find (\<lambda>u. user_id u = i) ys)"
  using unblock_find [OF assms, of "\<lambda>u. user_id u = i"] by simp

lemma unblock_filter_id:
  assumes "map unblock xs = map unblock ys"
  shows "map unblock (filter (\<lambda>u. user_id u \<noteq> i) xs) =
         map unblock (filter (\<lambda>u. user_id u \<noteq> i) ys)"
  using assms
proof (induction xs arbitrary: ys)
  case Nil
  then show ?case by simp
next
  case (Cons x xs)
  then obtain y ys' where ys: "ys = y # ys'" by (cases ys) auto
  with Cons.prems have e: "unblock x = unblock y" and "map unblock xs = map unblock ys'"
    by simp_all
  with Cons.IH [of ys'] unblock_eq(1) [OF e] show ?case by (simp add: ys)
qed

lemma same_but_blocked_refl: "same_but_blocked s s"
  by (simp add: same_but_blocked_def)

lemma same_but_blocked_users:
  assumes "same_but_blocked s s'"
  shows "s' = s\<lparr>users := users s'\<rparr>" and "map unblock (users s) = map unblock (users s')"
  using assms by (simp_all add: same_but_blocked_def)

lemma agree_same: "same_but_blocked s s' \<Longrightarrow> agree (r, s) (r, s')"
  by (simp add: agree_def)

lemma token_required_agree:
  assumes "same_but_blocked s s'" and "\<And>uid. agree (f uid req s) (f uid req s')"
  shows "agree (token_required f req s) (token_required f req s')"
proof -
  have "active_tokens s = active_tokens s'" using assms(1) by (simp add: same_but_blocked_def)
  then show ?thesis
    using assms by (simp add: token_required_def agree_same split: sum.splits option.splits)
qed

lemma admin_required_agree:
  assumes "same_but_blocked s s'" and "\<And>aid. agree (f aid req s) (f aid req s')"
  shows "agree (admin_required f req s) (admin_required f req s')"
proof -
  have "admin_tokens s = admin_tokens s'" using assms(1) by (simp add: same_but_blocked_def)
  then show ?thesis
    using assms by (simp add: admin_required_def agree_same split: sum.splits option.splits)
qed


lemma map_option_unblock_cases:
  assumes "map_option unblock a = map_option unblock b"
  shows "(a = None \<and> b = None) \<or> (\<exists>u u'. a = Some u \<and> b = Some u' \<and> unblock u = unblock u')"
  using assms by (cases a; cases b) simp_all

lemma get_user_cases:
  assumes "same_but_blocked s s'"
  shows "(get_user s i = None \<and> get_user s' i = None) \<or>
         (\<exists>u u'. get_user s i = Some u \<and> get_user s' i = Some u' \<and> unblock u = unblock u')"
  unfolding get_user_def
  by (rule map_option_unblock_cases) (rule unblock_find_id [OF same_but_blocked_users(2) [OF assms]])

lemma find_email_cases:
  assumes "same_but_blocked s s'"
  shows "(find (\<lambda>u. user_email u = e) (users s) = None \<and>
          find (\<lambda>u. user_email u = e) (users s') = None) \<or>
         (\<exists>u u'. find (\<lambda>u. user_email u = e) (users s) = Some u \<and>
                 find (\<lambda>u. user_email u = e) (users s') = Some u' \<and> unblock u = unblock u')"
  by (rule map_option_unblock_cases)
    (rule unblock_find_email [OF same_but_blocked_users(2) [OF assms]])

lemma plain_agree:
  assumes "same_but_blocked s s'"
  shows "agree (home s) (home s')"
    and "agree (logout uid req s) (logout uid req s')"
    and "agree (admin_login token creq s) (admin_login token creq s')"
    and "agree (get_current_admin aid req s) (get_current_admin aid req s')"
    and "agree (admin_logout aid req s) (admin_logout aid req s')"
    and "agree (get_history uid req s) (get_history uid req s')"
    and "agree (delete_history uid i req s) (delete_history uid i req s')"
    and "agree (toggle_favorite uid i req s) (toggle_favorite uid i req s')"
    and "agree (delete_prediction_admin aid i req s) (delete_prediction_admin aid i req s')"
    and "agree (get_model_info art aid req s) (get_model_info art aid req s')"
  using assms
  by (simp_all add: agree_def same_but_blocked_def home_def logout_def admin_login_def
      get_current_admin_def admin_logout_def get_history_def delete_history_def
      toggle_favorite_def delete_prediction_admin_def get_model_info_def get_admin_def
      get_prediction_def Let_def split: sum.splits option.splits)

lemma predict_agree:
  assumes "same_but_blocked s s'"
  shows "agree (predict art now uid req s) (predict art now uid req s')"
  using assms
  by (simp add: agree_def same_but_blocked_def predict_def Let_def split: sum.splits prod.splits)

lemma get_current_user_agree:
  assumes "same_but_blocked s s'"
  shows "agree (get_current_user uid req s) (get_current_user uid req s')"
  using get_user_cases [OF assms, of uid] assms
  by (auto simp: agree_def get_current_user_def dest: unblock_eq)

lemma login_agree:
  assumes "same_but_blocked s s'"
  shows "agree (login token req s) (login token req s')"
proof (cases "req_json req")
  case None
  with assms show ?thesis by (simp add: login_def agree_def)
next
  case (Some data)
  let ?f = "\<lambda>s. find (\<lambda>u. user_email u = the (cred_email data)) (users s)"
  from find_email_cases [OF assms, of "the (cred_email data)"]
  consider "?f s = None" "?f s' = None"
    | u u' where "?f s = Some u" "?f s' = Some u'" "unblock u = unblock u'"
    by (elim disjE exE conjE) simp_all
  then show ?thesis
  proof cases
    case 1
    with assms show ?thesis by (simp add: agree_def login_def Some Let_def)
  next
    case 2
    from unblock_eq [OF 2(3)] 2(1,2) assms show ?thesis
      by (simp add: agree_def login_def Some Let_def same_but_blocked_def)
  qed
qed

lemma register_agree:
  assumes "same_but_blocked s s'"
  shows "agree (register now salt req s) (register now salt req s')"
proof (cases "req_json req")
  case None
  with assms show ?thesis by (simp add: register_def agree_def)
next
  case (Some data)
  have i: "map user_id (users s) = map user_id (users s')"
    by (rule unblock_map_ids [OF same_but_blocked_users(2) [OF assms]])
  from find_email_cases [OF assms, of "the (cred_email data)"] assms show ?thesis
    by (auto simp: agree_def register_def Some Let_def same_but_blocked_def i)
qed

lemma delete_user_agree:
  assumes "same_but_blocked s s'"
  shows "agree (delete_user aid uid req s) (delete_user aid uid req s')"
  using get_user_cases [OF assms, of uid] assms
    unblock_filter_id [OF same_but_blocked_users(2) [OF assms]]
  by (auto simp: agree_def delete_user_def same_but_blocked_def dest: unblock_eq)

lemma owner_email_agree:
  assumes "same_but_blocked s s'"
  shows "(case get_user s i of Some u \<Rightarrow> user_email u | None \<Rightarrow> ''Unknown'') =
         (case get_user s' i of Some u \<Rightarrow> user_email u | None \<Rightarrow> ''Unknown'')"
  using get_user_cases [OF assms, of i] by (auto dest: unblock_eq)

lemma get_all_predictions_agree:
  assumes "same_but_blocked s s'"
  shows "agree (get_all_predictions aid req s) (get_all_predictions aid req s')"
  using assms
  by (simp add: agree_def get_all_predictions_def Let_def owner_email_agree [OF assms]
      same_but_blocked_def)

lemma get_statistics_agree:
  assumes "same_but_blocked s s'"
  shows "agree (get_statistics aid req s) (get_statistics aid req s')"
proof -
  have l: "length (users s) = length (users s')"
    by (rule unblock_map_length [OF same_but_blocked_users(2) [OF assms]])
  have p: "predictions s = predictions s'" using assms by (simp add: same_but_blocked_def)
  have "fst (get_statistics aid req s) = fst (get_statistics aid req s')"
    by (simp add: get_statistics_def Let_def l p length_newest_first split: sum.splits)
  with assms show ?thesis by (simp add: agree_def read_only_statistics)
qed


lemma serve_agree:
  assumes "same_but_blocked s s'" and "\<not> shows_block_flag c"
  shows "agree (serve art c s) (serve art c s')"
proof (cases c)
  case Home
  show ?thesis unfolding Home serve.simps by (rule plain_agree(1) [OF assms(1)])
next
  case (Register now salt req)
  show ?thesis unfolding Register serve.simps by (rule register_agree [OF assms(1)])
next
  case (Login token req)
  show ?thesis unfolding Login serve.simps by (rule login_agree [OF assms(1)])
next
  case (AdminLogin token req)
  show ?thesis unfolding AdminLogin serve.simps by (rule plain_agree(3) [OF assms(1)])
next
  case (GetAllUsers req)
  with assms(2) show ?thesis by simp
next
  case (ToggleBlockUser uid req)
  with assms(2) show ?thesis by simp
next
  case (Me req)
  show ?thesis unfolding Me serve.simps
    by (rule token_required_agree [OF assms(1)]) (rule get_current_user_agree [OF assms(1)])
next
  case (Logout req)
  show ?thesis unfolding Logout serve.simps
    by (rule token_required_agree [OF assms(1)]) (rule plain_agree(2) [OF assms(1)])
next
  case (Predict now req)
  show ?thesis unfolding Predict serve.simps
    by (rule token_required_agree [OF assms(1)]) (rule predict_agree [OF assms(1)])
next
  case (History req)
  show ?thesis unfolding History serve.simps
    by (rule token_required_agree [OF assms(1)]) (rule plain_agree(6) [OF assms(1)])
next
  case (DeleteHistory i req)
  show ?thesis unfolding DeleteHistory serve.simps
    by (rule token_required_agree [OF assms(1)]) (rule plain_agree(7) [OF assms(1)])
next
  case (ToggleFavorite i req)
  show ?thesis unfolding ToggleFavorite serve.simps
    by (rule token_required_agree [OF assms(1)]) (rule plain_agree(8) [OF assms(1)])
next
  case (AdminMe req)
  show ?thesis unfolding AdminMe serve.simps
    by (rule admin_required_agree [OF assms(1)]) (rule plain_agree(4) [OF assms(1)])
next
  case (AdminLogout req)
  show ?thesis unfolding AdminLogout serve.simps
    by (rule admin_required_agree [OF assms(1)]) (rule plain_agree(5) [OF assms(1)])
next
  case (DeleteUser uid req)
  show ?thesis unfolding DeleteUser serve.simps
    by (rule admin_required_agree [OF assms(1)]) (rule delete_user_agree [OF assms(1)])
next
  case (GetAllPredictions req)
  show ?thesis unfolding GetAllPredictions serve.simps
    by (rule admin_required_agree [OF assms(1)]) (rule get_all_predictions_agree [OF assms(1)])
next
  case (DeletePredictionAdmin i req)
  show ?thesis unfolding DeletePredictionAdmin serve.simps
    by (rule admin_required_agree [OF assms(1)]) (rule plain_agree(9) [OF assms(1)])
next
  case (GetStatistics req)
  show ?thesis unfolding GetStatistics serve.simps
    by (rule admin_required_agree [OF assms(1)]) (rule get_statistics_agree [OF assms(1)])
next
  case (GetModelInfo req)
  show ?thesis unfolding GetModelInfo serve.simps
    by (rule admin_required_agree [OF assms(1)]) (rule plain_agree(10) [OF assms(1)])
qed

lemma responses_agree:
  assumes "same_but_blocked s s'" and "\<forall>c \<in> set cs. \<not> shows_block_flag c"
  shows "responses art cs s = responses art cs s'"
  using assms
proof (induction cs arbitrary: s s')
  case Nil
  show ?case by simp
next
  case (Cons c cs)
  from Cons.prems have "agree (serve art c s) (serve art c s')"
    by (intro serve_agree) simp_all
  then have f: "fst (serve art c s) = fst (serve art c s')"
    and b: "same_but_blocked (snd (serve art c s)) (snd (serve art c s'))"
    by (simp_all add: agree_def)
  from Cons.IH [OF b] Cons.prems(2) f show ?case by simp
qed

lemma find_map_keeping:
  assumes "\<And>x. P (g x) = P x"
  shows "find P (map g xs) = map_option g (find P xs)"
  by (induction xs) (simp_all add: assms)

lemma unblock_update [simp]: "unblock (u\<lparr>is_blocked := b\<rparr>) = unblock u"
  by (simp add: unblock_def)

lemma toggle_block_user_effect:
  assumes "get_user s uid = Some u"
  shows "fst (toggle_block_user aid uid req s) =
           (Json (JObj [(''message'', JStr ''User block status updated''),
                        (''is_blocked'', JBool (\<not> is_blocked u))]), 200)"
    and "same_but_blocked s (snd (toggle_block_user aid uid req s))"
    and "map_option is_blocked (get_user (snd (toggle_block_user aid uid req s)) uid) =
           Some (\<not> is_blocked u)"
proof -
  let ?g = "\<lambda>x. if user_id x = user_id u then x\<lparr>is_blocked := \<not> is_blocked u\<rparr> else x"
  have s': "toggle_block_user aid uid req s =
      ((Json (JObj [(''message'', JStr ''User block status updated''),
                    (''is_blocked'', JBool (\<not> is_blocked u))]), 200),
       s\<lparr>users := map ?g (users s)\<rparr>)"
    by (simp add: toggle_block_user_def assms Let_def)
  show "fst (toggle_block_user aid uid req s) =
           (Json (JObj [(''message'', JStr ''User block status updated''),
                        (''is_blocked'', JBool (\<not> is_blocked u))]), 200)"
    by (simp add: s')
  have "map unblock (map ?g (users s)) = map unblock (users s)"
    by (induction "users s") auto
  then show "same_but_blocked s (snd (toggle_block_user aid uid req s))"
    by (simp add: s' same_but_blocked_def)
  have i: "user_id u = uid" by (rule get_user_id [OF assms])
  have "find (\<lambda>x. user_id x = uid) (map ?g (users s)) =
        map_option ?g (find (\<lambda>x. user_id x = uid) (users s))"
    by (rule find_map_keeping) simp
  with assms i show "map_option is_blocked (get_user (snd (toggle_block_user aid uid req s)) uid) =
           Some (\<not> is_blocked u)"
    by (simp add: s' get_user_def)
qed

lemma bob_login:
  "fst (serve example_artifacts (Login ''tokB2'' (anonymous bob_credentials)) example_state) =
     (Json (JObj [(''token'', JStr ''tokB2''),
                  (''user'', JObj [(''id'', JInt 2), (''email'', JStr ''bob@example.com'')])]),
      200)"
  by (simp add: login_def anonymous_def bob_credentials_def example_state_def alice_def bob_def)

text \<open>
  Claim C5. \<^verbatim>\<open>PUT /admin/users/{id}/block\<close> stores the negated flag of the user and reports
  it, and that is all it does: to every sequence of requests that does not ask for the
  flag itself (every route but the administrator's user list and the block toggle; so
  every login and every request behind the user guard) the service gives the same
  responses after the toggle as without it. More generally, two states that differ only
  in the block flags of their users give the same responses to such a sequence.
\<close>

theorem block_flag_not_enforced:
  assumes "authorization areq = Some h" and "py_index (split_space h) 1 = Inr t" and "t \<noteq> []"
    and "admin_tokens s t = Some aid"
    and "get_user s uid = Some u"
    and "\<forall>c \<in> set cs. \<not> shows_block_flag c"
  shows "fst (serve art (ToggleBlockUser uid areq) s) =
           (Json (JObj [(''message'', JStr ''User block status updated''),
                        (''is_blocked'', JBool (\<not> is_blocked u))]), 200) \<and>
         map_option is_blocked (get_user (snd (serve art (ToggleBlockUser uid areq) s)) uid) =
           Some (\<not> is_blocked u) \<and>
         responses art cs (snd (serve art (ToggleBlockUser uid areq) s)) = responses art cs s \<and>
         (\<forall>s'. same_but_blocked s s' \<longrightarrow> responses art cs s' = responses art cs s)"
proof -
  have e: "serve art (ToggleBlockUser uid areq) s = toggle_block_user aid uid areq s"
    by (simp add: admin_required_pass [OF assms(1-4)])
  note t = toggle_block_user_effect [OF assms(5), of aid areq]
  have "responses art cs (snd (toggle_block_user aid uid areq s)) = responses art cs s"
    by (rule responses_agree [OF t(2) assms(6), symmetric])
  moreover have "responses art cs s' = responses art cs s" if "same_but_blocked s s'" for s'
    by (rule responses_agree [OF that assms(6), symmetric])
  ultimately show ?thesis unfolding e using t(1,3) by blast
qed

theorem block_flag_not_enforced_witness:
  "authorization (bearer ''adm'' :: json request) = Some ''Bearer adm'' \<and>
   py_index (split_space ''Bearer adm'') 1 = Inr ''adm'' \<and> ''adm'' \<noteq> [] \<and>
   admin_tokens example_state ''adm'' = Some 1 \<and>
   get_user example_state 2 = Some bob \<and>
   list_all (\<lambda>c. \<not> shows_block_flag c) bob_session \<and>
   map_option is_blocked
     (get_user (snd (serve example_artifacts (ToggleBlockUser 2 (bearer ''adm'')) example_state)) 2) =
     Some True \<and>
   responses example_artifacts bob_session
     (snd (serve example_artifacts (ToggleBlockUser 2 (bearer ''adm'')) example_state)) =
     responses example_artifacts bob_session example_state \<and>
   hd (responses example_artifacts bob_session example_state) =
     (Json (JObj [(''token'', JStr ''tokB2''),
                  (''user'', JObj [(''id'', JInt 2), (''email'', JStr ''bob@example.com'')])]),
      200)"
proof -
  have b: "authorization (bearer ''adm'' :: json request) = Some ''Bearer adm''"
    by (simp add: bearer_def)
  have nb: "''adm'' \<noteq> []" by simp
  have tb: "admin_tokens example_state ''adm'' = Some 1" by (simp add: example_state_def)
  have g: "get_user example_state 2 = Some bob"
    by (simp add: get_user_def example_state_def alice_def bob_def)
  have l: "list_all (\<lambda>c. \<not> shows_block_flag c) bob_session"
    by (simp add: bob_session_def)
  then have c: "\<forall>c \<in> set bob_session. \<not> shows_block_flag c"
    by (simp add: list_all_iff)
  have f: "is_blocked bob = False" by (simp add: bob_def)
  have h: "hd (responses example_artifacts bob_session example_state) =
     (Json (JObj [(''token'', JStr ''tokB2''),
                  (''user'', JObj [(''id'', JInt 2), (''email'', JStr ''bob@example.com'')])]),
      200)"
    unfolding bob_session_def responses.simps list.sel by (rule bob_login)
  from block_flag_not_enforced [OF b adm_index nb tb g c, of example_artifacts]
  have "map_option is_blocked
     (get_user (snd (serve example_artifacts (ToggleBlockUser 2 (bearer ''adm'')) example_state)) 2) =
     Some True"
    and "responses example_artifacts bob_session
     (snd (serve example_artifacts (ToggleBlockUser 2 (bearer ''adm'')) example_state)) =
     responses example_artifacts bob_session example_state"
    by (simp_all add: f)
  with b adm_index nb tb g l h show ?thesis by blast
qed

end
